theory Spec2Isabelle
  imports Complex_Main
begin

section \<open>Python values, exceptions and dictionaries\<close>

text \<open>
  The library \<open>p1547.py\<close> computes with Python floats. Here they are real numbers:
  rounding to a binary format, NaN and overflow are outside the model. A Python
  exception is the left summand of a result; \<open>p1547Error\<close> is the one exception class
  the library declares itself.
\<close>

datatype pyerr =
    KeyError
  | IndexError
  | TypeError
  | ZeroDivisionError
  | ValueError
  | UnboundLocalError
  | p1547Error

definition bnd :: "pyerr + 'a \<Rightarrow> ('a \<Rightarrow> pyerr + 'b) \<Rightarrow> pyerr + 'b" where
  "bnd m f = (case m of Inl e \<Rightarrow> Inl e | Inr x \<Rightarrow> f x)"

text \<open>\<open>d[k]\<close> on a dictionary: a missing key raises \<open>KeyError\<close>.\<close>

definition lookup :: "('k \<rightharpoonup> 'v) \<Rightarrow> 'k \<Rightarrow> pyerr + 'v" where
  "lookup d k = (case d k of None \<Rightarrow> Inl KeyError | Some v \<Rightarrow> Inr v)"

section \<open>Ride-through sequences\<close>

subsection \<open>Rows of the sequence table\<close>

text \<open>
  A test condition is \<open>pd.Series([condition, minimum duration, value])\<close>; the sequence
  frame adds the two timing columns. The column prefixes \<open>VRT_\<close>, \<open>FRT_\<close> and
  \<open>PCRT_\<close> of the three classes are dropped.
\<close>

record condition_row =
  CONDITION :: real
  MIN_DURATION :: real
  VALUES :: real

record timed_row = condition_row +
  START_TIMING :: real
  END_TIMING :: real

definition series :: "real \<Rightarrow> real \<Rightarrow> real \<Rightarrow> condition_row" where
  "series c d v = \<lparr>CONDITION = c, MIN_DURATION = d, VALUES = v\<rparr>"

text \<open>
  The successive \<open>test_sequences_df.append(test_condition[k])\<close> calls: the letters are
  looked up in order, and the first missing one raises \<open>KeyError\<close>.
\<close>

fun append_conditions :: "(string \<rightharpoonup> condition_row) \<Rightarrow> string list \<Rightarrow> pyerr + condition_row list" where
  "append_conditions tc [] = Inr []"
| "append_conditions tc (k # ks) =
     bnd (lookup tc k) (\<lambda>r. bnd (append_conditions tc ks) (\<lambda>rs. Inr (r # rs)))"

text \<open>
  The timing loop shared by the three \<open>get_test_sequence\<close> methods: row 0 starts at
  \<open>T0\<close>, every row ends \<open>MIN_DURATION\<close> after its start, and row \<open>i\<close> starts where row
  \<open>i - 1\<close> ended. The argument \<open>t\<close> is the end of the previous row. (On an empty frame
  pandas would create a row of NaN; no condition table below yields an empty frame.)
\<close>

fun calculate_timing :: "real \<Rightarrow> condition_row list \<Rightarrow> timed_row list" where
  "calculate_timing t [] = []"
| "calculate_timing t (r # rs) =
     \<lparr>CONDITION = CONDITION r, MIN_DURATION = MIN_DURATION r, VALUES = VALUES r,
      START_TIMING = t, END_TIMING = t + MIN_DURATION r\<rparr>
     # calculate_timing (t + MIN_DURATION r) rs"

subsection \<open>Voltage ride-through\<close>

text \<open>
  \<open>set_vrt_modes\<close> builds the mode strings \<open>LV_CAT_2\<close>, \<open>LV_CAT_3\<close>, \<open>HV_CAT_2\<close> and
  \<open>HV_CAT_3\<close>; the substring tests \<open>CAT_2 in current_mode and LV in current_mode\<close>
  of the source tell exactly these four apart, in this order.
\<close>

datatype vrt_mode = LV_CAT_2 | LV_CAT_3 | HV_CAT_2 | HV_CAT_3

text \<open>The key \<open>D'\<close> and its siblings end in an apostrophe.\<close>

definition prime :: "string \<Rightarrow> string" where
  "prime k = k @ [CHR 0x27]"

record vrt_params =
  vrt_v_nom :: real
  vrt_range_steps :: string
  vrt_consecutive_ena :: string
  vrt_eut_startup_time :: real

text \<open>
  \<open>VoltageRideThrough.set_test_conditions\<close>, the table part. \<open>uniform i a b\<close> is the
  value that the \<open>i\<close>-th call of \<open>random.uniform(a, b)\<close> returns.
\<close>

definition vrt_test_condition ::
  "vrt_params \<Rightarrow> (nat \<Rightarrow> real \<Rightarrow> real \<Rightarrow> real) \<Rightarrow> vrt_mode \<Rightarrow> pyerr + (string \<rightharpoonup> condition_row)" where
  "vrt_test_condition p uniform current_mode =
     (if vrt_v_nom p = 0 then Inl ZeroDivisionError
      else
        let mra_v_pu = (0.01 * vrt_v_nom p) / vrt_v_nom p;
            RANGE_STEPS = vrt_range_steps p
        in Inr (case current_mode of
          LV_CAT_2 \<Rightarrow>
            (if RANGE_STEPS = ''Figure'' then
               [''A'' \<mapsto> series 1 10 0.94,
                ''B'' \<mapsto> series 2 0.160 (0.3 - 2 * mra_v_pu),
                ''C'' \<mapsto> series 3 0.160 (0.45 - 2 * mra_v_pu),
                ''D'' \<mapsto> series 4 2.68 0.65,
                prime ''D'' \<mapsto> series (4 + 10) 7.68 (0.67 + 2 * mra_v_pu),
                ''E'' \<mapsto> series 5 2.0 0.88,
                ''F'' \<mapsto> series 6 120.0 0.94]
             else if RANGE_STEPS = ''Random'' then
               [''A'' \<mapsto> series 1 10 (uniform 0 (0.88 + 2 * mra_v_pu) 1.0),
                ''B'' \<mapsto> series 2 0.160 (uniform 1 0.0 (0.3 - 2 * mra_v_pu)),
                ''C'' \<mapsto> series 3 0.160 (uniform 2 0.0 (0.45 - 2 * mra_v_pu)),
                ''D'' \<mapsto> series 4 2.68 (uniform 3 (0.45 + 2 * mra_v_pu) (0.65 - 2 * mra_v_pu)),
                prime ''D'' \<mapsto> series (4 + 10) 7.68 (uniform 4 0.67 (0.88 - 2 * mra_v_pu)),
                ''E'' \<mapsto> series 5 2.0 (uniform 5 (0.65 + 2 * mra_v_pu) (0.88 - 2 * mra_v_pu)),
                ''F'' \<mapsto> series 6 120.0 (uniform 6 (0.88 + 2 * mra_v_pu) 1.0)]
             else Map.empty)
        | LV_CAT_3 \<Rightarrow>
            (if RANGE_STEPS = ''Figure'' then
               [''A'' \<mapsto> series 1 5 0.94,
                ''B'' \<mapsto> series 2 1 (0.05 - 2 * mra_v_pu),
                ''C'' \<mapsto> series 3 9 (0.5 - 2 * mra_v_pu),
                prime ''C'' \<mapsto> series (3 + 10) 9 (0.52 + 2 * mra_v_pu),
                ''D'' \<mapsto> series 4 10.0 0.7,
                ''E'' \<mapsto> series 5 120.0 0.94]
             else if RANGE_STEPS = ''Random'' then
               [''A'' \<mapsto> series 1 5 (uniform 0 (0.88 + 2 * mra_v_pu) 1.0),
                ''B'' \<mapsto> series 2 1 (uniform 1 0.0 (0.05 - 2 * mra_v_pu)),
                ''C'' \<mapsto> series 3 9 (uniform 2 0.0 (0.5 - 2 * mra_v_pu)),
                prime ''C'' \<mapsto> series (3 + 10) 9 (uniform 3 0.52 (0.7 - 2 * mra_v_pu)),
                ''D'' \<mapsto> series 4 10.0 (uniform 4 (0.5 + 2 * mra_v_pu) (0.7 - 2 * mra_v_pu)),
                ''E'' \<mapsto> series 5 120.0 (uniform 5 (0.88 + 2 * mra_v_pu) 1.0)]
             else Map.empty)
        | HV_CAT_2 \<Rightarrow>
            (if RANGE_STEPS = ''Figure'' then
               [''A'' \<mapsto> series 1 10 1.0,
                ''B'' \<mapsto> series 2 0.2 (1.2 - 2 * mra_v_pu),
                ''C'' \<mapsto> series 3 0.3 1.175,
                ''D'' \<mapsto> series 4 0.5 1.15,
                ''E'' \<mapsto> series 5 120.0 1.0]
             else if RANGE_STEPS = ''Random'' then
               [''A'' \<mapsto> series 1 10 (uniform 0 1.0 (1.1 - 2 * mra_v_pu)),
                ''B'' \<mapsto> series 2 0.2 (uniform 1 1.18 1.2),
                ''C'' \<mapsto> series 3 0.3 (uniform 2 1.155 1.175),
                ''D'' \<mapsto> series 4 0.5 (uniform 3 1.13 1.15),
                ''E'' \<mapsto> series 5 120.0 (uniform 4 1.0 (1.1 - 2 * mra_v_pu))]
             else Map.empty)
        | HV_CAT_3 \<Rightarrow>
            (if RANGE_STEPS = ''Figure'' then
               [''A'' \<mapsto> series 1 5 1.05,
                ''B'' \<mapsto> series 2 12 (1.2 - 2 * mra_v_pu),
                prime ''B'' \<mapsto> series (2 + 10) 12 1.12,
                ''C'' \<mapsto> series 3 120 1.05]
             else if RANGE_STEPS = ''Random'' then
               [''A'' \<mapsto> series 1 5 (uniform 0 1.0 (1.1 - 2 * mra_v_pu)),
                ''B'' \<mapsto> series 2 12 (uniform 1 1.18 1.2),
                prime ''B'' \<mapsto> series (2 + 10) 12 (uniform 2 1.12 1.2),
                ''C'' \<mapsto> series 3 120 (uniform 3 1.0 (1.1 - 2 * mra_v_pu))]
             else Map.empty)))"

text \<open>The order of the appended letters in \<open>VoltageRideThrough.get_test_sequence\<close>.\<close>

definition vrt_letters :: "vrt_mode \<Rightarrow> bool \<Rightarrow> string list" where
  "vrt_letters current_mode CONSECUTIVE =
     (case current_mode of
        LV_CAT_2 \<Rightarrow>
          (if CONSECUTIVE then
             [''A'', ''B'', ''C'', ''D'', ''E'',
              ''A'', ''B'', ''C'', ''D'', ''E'', ''F'',
              ''A'', ''B'', ''C'', prime ''D'', ''F'']
           else [''A'', ''B'', ''C'', ''D'', ''E'', ''F''])
      | LV_CAT_3 \<Rightarrow>
          (if CONSECUTIVE then
             [''A'', ''B'', ''C'', ''D'',
              ''A'', ''B'', ''C'', ''D'',
              ''A'', ''B'', ''C'', ''D'', ''E'',
              ''A'', ''B'', prime ''C'', ''D'', ''E'']
           else [''A'', ''B'', ''C'', ''D'', ''E''])
      | HV_CAT_2 \<Rightarrow>
          (if CONSECUTIVE then
             [''A'', ''B'', ''C'', ''D'',
              ''A'', ''B'', ''C'', ''D'', ''E'']
           else [''A'', ''B'', ''C'', ''D'', ''E''])
      | HV_CAT_3 \<Rightarrow>
          (if CONSECUTIVE then
             [''A'', ''B'',
              ''A'', ''B'',
              ''A'', ''B'', ''C'',
              ''A'', prime ''B'', ''C'']
           else [''A'', ''B'', ''C'']))"

definition vrt_get_test_sequence ::
  "vrt_params \<Rightarrow> vrt_mode \<Rightarrow> (string \<rightharpoonup> condition_row) \<Rightarrow> pyerr + timed_row list" where
  "vrt_get_test_sequence p current_mode test_condition =
     (let T0 = vrt_eut_startup_time p;
          CONSECUTIVE = (vrt_consecutive_ena p = ''Enabled'')
      in bnd (append_conditions test_condition (vrt_letters current_mode CONSECUTIVE))
           (\<lambda>rows. Inr (calculate_timing T0 rows)))"

definition vrt_set_test_conditions ::
  "vrt_params \<Rightarrow> (nat \<Rightarrow> real \<Rightarrow> real \<Rightarrow> real) \<Rightarrow> vrt_mode \<Rightarrow> pyerr + timed_row list" where
  "vrt_set_test_conditions p uniform current_mode =
     bnd (vrt_test_condition p uniform current_mode) (vrt_get_test_sequence p current_mode)"

subsection \<open>Frequency ride-through\<close>

datatype frt_mode = LFRT | HFRT

record frt_params =
  frt_f_nom :: real
  frt_lf_parameter :: real
  frt_lf_period :: real
  frt_hf_parameter :: real
  frt_hf_period :: real
  frt_eut_startup_time :: real

definition frt_test_condition :: "frt_params \<Rightarrow> frt_mode \<Rightarrow> (string \<rightharpoonup> condition_row)" where
  "frt_test_condition p current_mode =
     (case current_mode of
        LFRT \<Rightarrow>
          [''Step E'' \<mapsto> series 1 1 (frt_f_nom p),
           ''Step G'' \<mapsto> series 2 (frt_lf_period p) (frt_lf_parameter p),
           ''Step H'' \<mapsto> series 1 11 (frt_f_nom p)]
      | HFRT \<Rightarrow>
          [''Step E'' \<mapsto> series 1 1 (frt_f_nom p),
           ''Step G'' \<mapsto> series 2 (frt_hf_period p) (frt_hf_parameter p),
           ''Step H'' \<mapsto> series 1 11 (frt_f_nom p)])"

definition frt_get_test_sequence ::
  "frt_params \<Rightarrow> (string \<rightharpoonup> condition_row) \<Rightarrow> pyerr + timed_row list" where
  "frt_get_test_sequence p test_condition =
     (let T0 = frt_eut_startup_time p
      in bnd (append_conditions test_condition [''Step E'', ''Step G'', ''Step H''])
           (\<lambda>rows. Inr (calculate_timing T0 rows)))"

definition frt_set_test_conditions :: "frt_params \<Rightarrow> frt_mode \<Rightarrow> pyerr + timed_row list" where
  "frt_set_test_conditions p current_mode =
     frt_get_test_sequence p (frt_test_condition p current_mode)"

subsection \<open>Phase-change ride-through\<close>

definition pcrt_test_condition :: "string \<rightharpoonup> condition_row" where
  "pcrt_test_condition =
     [''A'' \<mapsto> series 1.0 30 0.0,
      ''G'' \<mapsto> series 1.0 30 0.0,
      ''B'' \<mapsto> series 2.0 0.5 60.0,
      ''C'' \<mapsto> series 3.0 0.5 60.0,
      ''D'' \<mapsto> series 4.0 0.5 60.0,
      ''E'' \<mapsto> series 5.0 60.0 20.0,
      ''F'' \<mapsto> series 6.0 60.0 20.0]"

definition pcrt_letters :: "real \<Rightarrow> string list" where
  "pcrt_letters test_num =
     (if 1.0 = test_num then [''A'', ''B'', ''G'']
      else if 2.0 = test_num then [''A'', ''C'', ''G'']
      else if 3.0 = test_num then [''A'', ''D'', ''G'']
      else if 4.0 = test_num then [''A'', ''E'', ''G'']
      else [''A'', ''F'', ''G''])"

definition pcrt_get_test_sequence ::
  "real \<Rightarrow> real \<Rightarrow> (string \<rightharpoonup> condition_row) \<Rightarrow> pyerr + timed_row list" where
  "pcrt_get_test_sequence T0 test_num test_condition =
     bnd (append_conditions test_condition (pcrt_letters test_num))
       (\<lambda>rows. Inr (calculate_timing T0 rows))"

definition pcrt_set_test_conditions :: "real \<Rightarrow> real \<Rightarrow> pyerr + timed_row list" where
  "pcrt_set_test_conditions T0 test_num = pcrt_get_test_sequence T0 test_num pcrt_test_condition"

subsection \<open>Arrays handed to the simulator driver\<close>

text \<open>
  \<open>extend_list_end\<close>: \<open>_list.extend([float(extend_value)] * (final_length - len(_list)))\<close>.
  A list times a negative number is the empty list, which is what the truncating
  subtraction of \<open>nat\<close> gives to \<open>replicate\<close>.
\<close>

definition extend_list_end :: "real list \<Rightarrow> real \<Rightarrow> nat \<Rightarrow> real list" where
  "extend_list_end list0 extend_value final_length =
     list0 @ replicate (final_length - length list0) extend_value"

datatype matlab_value = Scalar real | Vector "real list"

definition CLEARING_STEPS :: "real list" where
  "CLEARING_STEPS = [1.0, 1.0, 1.0, 1.0, 1.0, 1.0, 1.0, 1.0, 1.0, 1.0, 1.0, 1.0, 1.0, 1.0, 1.0, 1.0, 1.0, 1.0]"

text \<open>The methods return the \<open>parameters\<close> list they pass to \<open>hil.set_matlab_variables\<close>.\<close>

definition set_vrt_model_parameters :: "timed_row list \<Rightarrow> (string \<times> matlab_value) list" where
  "set_vrt_model_parameters test_sequence =
     [(''MODE'', Scalar 3.0),
      (''CLEARING_STEPS'', Vector (extend_list_end CLEARING_STEPS 0.0 20)),
      (''VRT_CONDITION'', Vector (extend_list_end (map CONDITION test_sequence) 0.0 20)),
      (''VRT_START_TIMING'', Vector (extend_list_end (map START_TIMING test_sequence) 0.0 20)),
      (''VRT_END_TIMING'', Vector (extend_list_end (map END_TIMING test_sequence) 0.0 20)),
      (''VRT_VALUES'', Vector (extend_list_end (map VALUES test_sequence) 0.0 20))]"

definition set_frt_model_parameters :: "timed_row list \<Rightarrow> (string \<times> matlab_value) list" where
  "set_frt_model_parameters test_sequence =
     [(''MODE'', Scalar 4.0),
      (''FRT_CONDITION'', Vector (extend_list_end (map CONDITION test_sequence) 0.0 4)),
      (''FRT_START_TIMING'', Vector (extend_list_end (map START_TIMING test_sequence) 0.0 4)),
      (''FRT_END_TIMING'', Vector (extend_list_end (map END_TIMING test_sequence) 0.0 4)),
      (''FRT_VALUES'', Vector (extend_list_end (map VALUES test_sequence) 0.0 4))]"

definition set_pcrt_model_parameters :: "timed_row list \<Rightarrow> (string \<times> matlab_value) list" where
  "set_pcrt_model_parameters test_sequence =
     [(''MODE'', Scalar 2.0),
      (''PCRT_CONDITION'', Vector (extend_list_end (map CONDITION test_sequence) 0.0 11)),
      (''PCRT_START_TIMING'', Vector (extend_list_end (map START_TIMING test_sequence) 0.0 11)),
      (''PCRT_END_TIMING'', Vector (extend_list_end (map END_TIMING test_sequence) 0.0 11)),
      (''PCRT_VALUES'', Vector (extend_list_end (map VALUES test_sequence) 0.0 11))]"

text \<open>The length of every array among the parameters.\<close>

fun vector_lengths :: "(string \<times> matlab_value) list \<Rightarrow> nat list" where
  "vector_lengths [] = []"
| "vector_lengths ((k, Scalar x) # ps) = vector_lengths ps"
| "vector_lengths ((k, Vector xs) # ps) = length xs # vector_lengths ps"

definition timestamps :: "timed_row list \<Rightarrow> real list" where
  "timestamps rows = (case rows of [] \<Rightarrow> [] | r # rs \<Rightarrow> START_TIMING r # map END_TIMING rows)"

definition positive_durations :: "(string \<rightharpoonup> condition_row) \<Rightarrow> bool" where
  "positive_durations tc \<longleftrightarrow> (\<forall>r \<in> ran tc. 0 < MIN_DURATION r)"

definition contiguous_from :: "real \<Rightarrow> timed_row list \<Rightarrow> bool" where
  "contiguous_from T0 rows \<longleftrightarrow>
     (rows \<noteq> [] \<longrightarrow> START_TIMING (rows ! 0) = T0) \<and>
     (\<forall>i \<in> {0..<length rows}. END_TIMING (rows ! i) = START_TIMING (rows ! i) + MIN_DURATION (rows ! i)) \<and>
     (\<forall>i \<in> {0..<length rows - 1}. START_TIMING (rows ! Suc i) = END_TIMING (rows ! i))"

definition frt_period :: "frt_params \<Rightarrow> frt_mode \<Rightarrow> real" where
  "frt_period p m = (case m of LFRT \<Rightarrow> frt_lf_period p | HFRT \<Rightarrow> frt_hf_period p)"

definition frt_example :: frt_params where
  "frt_example = \<lparr>frt_f_nom = 60, frt_lf_parameter = 57, frt_lf_period = 299, frt_hf_parameter = 61.8,
     frt_hf_period = 299, frt_eut_startup_time = 0\<rparr>"

definition vrt_example :: vrt_params where
  "vrt_example = \<lparr>vrt_v_nom = 120, vrt_range_steps = ''Figure'', vrt_consecutive_ena = ''Disabled'',
     vrt_eut_startup_time = 0\<rparr>"

definition vrt_example_rows :: "timed_row list" where
  "vrt_example_rows =
     [\<lparr>CONDITION = 1, MIN_DURATION = 5, VALUES = 1.05, START_TIMING = 0, END_TIMING = 5\<rparr>,
      \<lparr>CONDITION = 2, MIN_DURATION = 12, VALUES = 1.18, START_TIMING = 5, END_TIMING = 17\<rparr>,
      \<lparr>CONDITION = 3, MIN_DURATION = 120, VALUES = 1.05, START_TIMING = 17, END_TIMING = 137\<rparr>]"

definition frt_example_rows :: "timed_row list" where
  "frt_example_rows =
     [\<lparr>CONDITION = 1, MIN_DURATION = 1, VALUES = 60, START_TIMING = 0, END_TIMING = 1\<rparr>,
      \<lparr>CONDITION = 2, MIN_DURATION = 299, VALUES = 57, START_TIMING = 1, END_TIMING = 300\<rparr>,
      \<lparr>CONDITION = 1, MIN_DURATION = 11, VALUES = 60, START_TIMING = 300, END_TIMING = 311\<rparr>]"

definition frt_zero_period_rows :: "timed_row list" where
  "frt_zero_period_rows =
     [\<lparr>CONDITION = 1, MIN_DURATION = 1, VALUES = 60, START_TIMING = 0, END_TIMING = 1\<rparr>,
      \<lparr>CONDITION = 2, MIN_DURATION = 0, VALUES = 57, START_TIMING = 1, END_TIMING = 1\<rparr>,
      \<lparr>CONDITION = 1, MIN_DURATION = 11, VALUES = 60, START_TIMING = 1, END_TIMING = 12\<rparr>]"

definition pcrt_example_rows :: "timed_row list" where
  "pcrt_example_rows =
     [\<lparr>CONDITION = 1, MIN_DURATION = 30, VALUES = 0, START_TIMING = 0, END_TIMING = 30\<rparr>,
      \<lparr>CONDITION = 2, MIN_DURATION = 0.5, VALUES = 60, START_TIMING = 30, END_TIMING = 30.5\<rparr>,
      \<lparr>CONDITION = 1, MIN_DURATION = 30, VALUES = 0, START_TIMING = 30.5, END_TIMING = 60.5\<rparr>]"

section \<open>Step labels\<close>

text \<open>
  The two attributes of \<open>UtilParameters\<close> that the label generator reads and writes.
  \<open>step_label\<close> holds a code point.
\<close>

record step_label_state =
  step_label :: nat
  double_letter_label :: bool

text \<open>\<open>ord(s)\<close> accepts a string of length one only.\<close>

definition py_ord :: "string \<Rightarrow> pyerr + nat" where
  "py_ord s = (case s of [c] \<Rightarrow> Inr (of_char c) | _ \<Rightarrow> Inl TypeError)"

definition set_step_label :: "string option \<Rightarrow> pyerr + step_label_state" where
  "set_step_label starting_label =
     (let starting_label = (case starting_label of None \<Rightarrow> ''a'' | Some l \<Rightarrow> l)
      in bnd (py_ord starting_label)
           (\<lambda>starting_label_value.
              Inr \<lparr>step_label = starting_label_value, double_letter_label = False\<rparr>))"

text \<open>
  \<open>get_step_label\<close> returns the label and the updated attributes. When \<open>chr\<close> is applied
  the code point is at most 90, so a \<open>char\<close> holds it.
\<close>

definition get_step_label :: "step_label_state \<Rightarrow> string \<times> step_label_state" where
  "get_step_label self =
     (let self = (if step_label self > 90
                  then self\<lparr>step_label := of_char (CHR ''A''), double_letter_label := True\<rparr>
                  else self);
          label = (if double_letter_label self
                   then ''Step '' @ [char_of (step_label self), char_of (step_label self)]
                   else ''Step '' @ [char_of (step_label self)])
      in (label, self\<lparr>step_label := step_label self + 1\<rparr>))"

text \<open>The labels of \<open>n\<close> successive calls of \<open>get_step_label\<close>.\<close>

fun get_step_labels :: "nat \<Rightarrow> step_label_state \<Rightarrow> string list" where
  "get_step_labels 0 self = []"
| "get_step_labels (Suc n) self =
     (case get_step_label self of (label, self') \<Rightarrow> label # get_step_labels n self')"

text \<open>\<open>set_step_label\<close> followed by \<open>n\<close> calls of \<open>get_step_label\<close>.\<close>

definition step_label_sequence :: "string option \<Rightarrow> nat \<Rightarrow> pyerr + string list" where
  "step_label_sequence starting_label n =
     bnd (set_step_label starting_label) (\<lambda>self. Inr (get_step_labels n self))"

definition alphabet :: string where
  "alphabet = ''ABCDEFGHIJKLMNOPQRSTUVWXYZ''"

definition single_letter_labels :: "string list" where
  "single_letter_labels = map (\<lambda>c. ''Step '' @ [c]) alphabet"

definition double_letter_labels :: "string list" where
  "double_letter_labels = map (\<lambda>c. ''Step '' @ [c, c]) alphabet"

section \<open>Criteria evaluation\<close>

subsection \<open>Functions of Python and NumPy\<close>

text \<open>
  \<open>round(x, n)\<close> rounds to \<open>n\<close> decimals, a tie going to the even neighbour. Python decides
  on the exact binary value of the float; the model decides on the real number.
\<close>

definition round_half_even :: "real \<Rightarrow> int" where
  "round_half_even x =
     (let f = \<lfloor>x\<rfloor>; d = x - of_int f
      in if d < 1 / 2 then f
         else if 1 / 2 < d then f + 1
         else if even f then f else f + 1)"

definition py_round :: "real \<Rightarrow> nat \<Rightarrow> real" where
  "py_round x n = of_int (round_half_even (x * 10 ^ n)) / 10 ^ n"

text \<open>\<open>int(x)\<close> truncates towards zero.\<close>

definition py_int :: "real \<Rightarrow> real" where
  "py_int x = (if 0 \<le> x then of_int \<lfloor>x\<rfloor> else of_int \<lceil>x\<rceil>)"

text \<open>\<open>a / b\<close> raises on a zero divisor, \<open>math.sqrt\<close> on a negative argument.\<close>

definition py_div :: "real \<Rightarrow> real \<Rightarrow> pyerr + real" where
  "py_div a b = (if b = 0 then Inl ZeroDivisionError else Inr (a / b))"

definition py_sqrt :: "real \<Rightarrow> pyerr + real" where
  "py_sqrt x = (if x < 0 then Inl ValueError else Inr (sqrt x))"

text \<open>
  Arithmetic and comparison on a value that may be \<open>None\<close>: \<open>None + 1.5\<close> and
  \<open>None < 1.5\<close> raise \<open>TypeError\<close>.
\<close>

definition py_add :: "real option \<Rightarrow> real \<Rightarrow> pyerr + real option" where
  "py_add a b = (case a of None \<Rightarrow> Inl TypeError | Some x \<Rightarrow> Inr (Some (x + b)))"

definition py_sub :: "real option \<Rightarrow> real \<Rightarrow> pyerr + real option" where
  "py_sub a b = (case a of None \<Rightarrow> Inl TypeError | Some x \<Rightarrow> Inr (Some (x - b)))"

definition py_less :: "real option \<Rightarrow> real option \<Rightarrow> pyerr + bool" where
  "py_less a b =
     (case a of None \<Rightarrow> Inl TypeError
      | Some x \<Rightarrow> (case b of None \<Rightarrow> Inl TypeError | Some y \<Rightarrow> Inr (x < y)))"

text \<open>
  \<open>np.interp(x, xp, fp)\<close> for one point \<open>x\<close>, as NumPy computes it on the short arrays
  the library passes (two to four break-points): the value of the last point right of
  \<open>xp\<close>, the value of the first point left of it, and otherwise a linear search for the
  segment \<open>xp[j] \<le> x < xp[j + 1]\<close>, on which the value is \<open>fp[j]\<close> at \<open>x = xp[j]\<close> and
  \<open>slope * (x - xp[j]) + fp[j]\<close> elsewhere. The library always passes two lists of the
  same, positive length, built from literal keys; on other arguments NumPy raises, and the
  last equation of the search is never reached from the library.
\<close>

fun np_interp_search :: "real \<Rightarrow> real list \<Rightarrow> real list \<Rightarrow> real" where
  "np_interp_search x (x0 # x1 # xp) (y0 # y1 # fp) =
     (if x \<ge> x1 then np_interp_search x (x1 # xp) (y1 # fp)
      else if x0 = x then y0
      else (y1 - y0) / (x1 - x0) * (x - x0) + y0)"
| "np_interp_search x [x0] (y0 # fp) = y0"
| "np_interp_search x xp fp = 0"

definition np_interp :: "real \<Rightarrow> real list \<Rightarrow> real list \<Rightarrow> real" where
  "np_interp x xp fp =
     (if x > last xp then last fp
      else if x < hd xp then hd fp
      else np_interp_search x xp fp)"

subsection \<open>The active function\<close>

type_synonym pydict = "string \<rightharpoonup> real"

text \<open>The keys of \<open>tr_value\<close> that the criteria read: \<open>timestamp_{tr}\<close>,
  \<open>{y}_TR_TARG_{tr}\<close> and \<open>{y}_TR_{tr}\<close>.\<close>

datatype tr_key = timestamp nat | TR_TARG string nat | TR string nat

text \<open>
  The attributes of \<open>ActiveFunction\<close> (with its base classes \<open>EutParameters\<close>,
  \<open>UtilParameters\<close>, \<open>DataLogging\<close> and \<open>CriteriaValidation\<close>) that the target and
  criteria computations read. \<open>param\<close> is \<open>self.param[function][curve]\<close>.
  \<open>measurement_total\<close> stands for \<open>get_measurement_total\<close>, which reads the data
  acquisition system and returns \<open>None\<close> when the reading fails. Timestamps are seconds.
\<close>

record active_function =
  v_nom :: real
  s_rated :: real
  f_nom :: real
  p_rated :: real
  p_rated_prime :: real
  p_min :: real
  var_rated :: real
  absorb :: string
  pwr :: real
  max_pwr_lim :: real
  curve :: nat
  param :: "string \<rightharpoonup> (nat \<rightharpoonup> pydict)"
  step_dict :: "pydict option"
  current_step_label :: string
  script_name :: string
  y_criteria :: "string list"
  measurement_total :: "string \<Rightarrow> real option"
  initial_timestamp :: real
  initial_y_value :: "string \<rightharpoonup> real"
  tr_value :: "tr_key \<rightharpoonup> real"

abbreviation FW :: string where "FW \<equiv> ''FW''"
abbreviation CPF :: string where "CPF \<equiv> ''CPF''"
abbreviation VW :: string where "VW \<equiv> ''VW''"
abbreviation VV :: string where "VV \<equiv> ''VV''"
abbreviation WV :: string where "WV \<equiv> ''WV''"
abbreviation CRP :: string where "CRP \<equiv> ''CRP''"
abbreviation LAP :: string where "LAP \<equiv> ''LAP''"
abbreviation PRI :: string where "PRI \<equiv> ''PRI''"

text \<open>The dictionary \<open>self.MRA\<close> that \<open>EutParameters.__init__\<close> builds.\<close>

definition MRA :: "active_function \<Rightarrow> pydict" where
  "MRA self =
     [''V'' \<mapsto> 0.01 * v_nom self,
      ''Q'' \<mapsto> 0.05 * s_rated self,
      ''P'' \<mapsto> 0.05 * s_rated self,
      ''F'' \<mapsto> 0.01,
      ''T'' \<mapsto> 0.01,
      ''PF'' \<mapsto> 0.01]"

text \<open>\<open>self.MRA[k]\<close> at one of the six literal keys, which are always present.\<close>

definition mra :: "active_function \<Rightarrow> string \<Rightarrow> real" where
  "mra self k = (case MRA self k of Some v \<Rightarrow> v | None \<Rightarrow> 0)"

text \<open>\<open>[d[k] for k in ks]\<close>, a list display of dictionary reads.\<close>

fun lookups :: "pydict \<Rightarrow> string list \<Rightarrow> pyerr + real list" where
  "lookups d [] = Inr []"
| "lookups d (k # ks) = bnd (lookup d k) (\<lambda>v. bnd (lookups d ks) (\<lambda>vs. Inr (v # vs)))"

text \<open>\<open>get_params(function, curve=self.curve)\<close>, that is \<open>self.param[function][self.curve]\<close>.\<close>

definition get_params :: "active_function \<Rightarrow> string \<Rightarrow> pyerr + pydict" where
  "get_params self function =
     bnd (lookup (param self) function) (\<lambda>curves. lookup curves (curve self))"

subsection \<open>Curve parameters\<close>

text \<open>\<open>VoltVar.set_params\<close>, \<open>VoltWatt.set_params\<close> and \<open>FrequencyWatt.set_params\<close> store
  the three curves of their function in \<open>self.param\<close>.\<close>

definition VoltVar_set_params :: "active_function \<Rightarrow> active_function" where
  "VoltVar_set_params self =
     self\<lparr>param := (param self)(VV \<mapsto>
       [1 \<mapsto>
          [''V1'' \<mapsto> py_round (0.92 * v_nom self) 2,
           ''V2'' \<mapsto> py_round (0.98 * v_nom self) 2,
           ''V3'' \<mapsto> py_round (1.02 * v_nom self) 2,
           ''V4'' \<mapsto> py_round (1.08 * v_nom self) 2,
           ''Q1'' \<mapsto> py_round (s_rated self * 0.44) 2,
           ''Q2'' \<mapsto> py_round (s_rated self * 0.0) 2,
           ''Q3'' \<mapsto> py_round (s_rated self * 0.0) 2,
           ''Q4'' \<mapsto> py_round (s_rated self * - 0.44) 2,
           ''TR'' \<mapsto> 5.0],
        2 \<mapsto>
          [''V1'' \<mapsto> py_round (0.88 * v_nom self) 2,
           ''V2'' \<mapsto> py_round (1.04 * v_nom self) 2,
           ''V3'' \<mapsto> py_round (1.07 * v_nom self) 2,
           ''V4'' \<mapsto> py_round (1.10 * v_nom self) 2,
           ''Q1'' \<mapsto> py_round (var_rated self * 1.0) 2,
           ''Q2'' \<mapsto> py_round (var_rated self * 0.5) 2,
           ''Q3'' \<mapsto> py_round (var_rated self * 0.5) 2,
           ''Q4'' \<mapsto> py_round (var_rated self * - 1.0) 2,
           ''TR'' \<mapsto> 1.0],
        3 \<mapsto>
          [''V1'' \<mapsto> py_round (0.90 * v_nom self) 2,
           ''V2'' \<mapsto> py_round (0.93 * v_nom self) 2,
           ''V3'' \<mapsto> py_round (0.96 * v_nom self) 2,
           ''V4'' \<mapsto> py_round (1.10 * v_nom self) 2,
           ''Q1'' \<mapsto> py_round (var_rated self * 1.0) 2,
           ''Q2'' \<mapsto> py_round (var_rated self * - 0.5) 2,
           ''Q3'' \<mapsto> py_round (var_rated self * - 0.5) 2,
           ''Q4'' \<mapsto> py_round (var_rated self * - 1.0) 2,
           ''TR'' \<mapsto> 90.0]])\<rparr>"

definition VoltWatt_set_params :: "active_function \<Rightarrow> active_function" where
  "VoltWatt_set_params self =
     (let P2 = (if p_min self > 0.2 * p_rated self then py_int (0.2 * p_rated self)
                else py_int (p_min self));
          P2_1 = (if absorb self = ''Yes'' then 0 else P2);
          P2_2 = (if absorb self = ''Yes'' then p_rated_prime self else P2);
          P2_3 = (if absorb self = ''Yes'' then p_rated_prime self else P2)
      in self\<lparr>param := (param self)(VW \<mapsto>
       [1 \<mapsto>
          [''V1'' \<mapsto> py_round (1.06 * v_nom self) 2,
           ''V2'' \<mapsto> py_round (1.10 * v_nom self) 2,
           ''P1'' \<mapsto> py_round (p_rated self) 2,
           ''TR'' \<mapsto> 10.0,
           ''P2'' \<mapsto> P2_1],
        2 \<mapsto>
          [''V1'' \<mapsto> py_round (1.05 * v_nom self) 2,
           ''V2'' \<mapsto> py_round (1.10 * v_nom self) 2,
           ''P1'' \<mapsto> py_round (p_rated self) 2,
           ''TR'' \<mapsto> 90.0,
           ''P2'' \<mapsto> P2_2],
        3 \<mapsto>
          [''V1'' \<mapsto> py_round (1.09 * v_nom self) 2,
           ''V2'' \<mapsto> py_round (1.10 * v_nom self) 2,
           ''P1'' \<mapsto> py_round (p_rated self) 2,
           ''TR'' \<mapsto> 0.5,
           ''P2'' \<mapsto> P2_3]])\<rparr>)"

text \<open>\<open>p_small\<close> and the three response times are test-script parameters, \<open>None\<close> when
  not configured.\<close>

definition FrequencyWatt_set_params ::
  "real option \<Rightarrow> real option \<Rightarrow> real option \<Rightarrow> real option \<Rightarrow> active_function \<Rightarrow> active_function" where
  "FrequencyWatt_set_params eut_fw_p_small fw_test_1_tr fw_test_2_tr fw_test_3_tr self =
     (let p_small = (case eut_fw_p_small of None \<Rightarrow> 0.05 | Some p \<Rightarrow> p);
          tr_1 = (case fw_test_1_tr of None \<Rightarrow> 5.0 | Some t \<Rightarrow> t);
          tr_2 = (case fw_test_2_tr of None \<Rightarrow> 0.2 | Some t \<Rightarrow> t);
          tr_3 = (case fw_test_3_tr of None \<Rightarrow> 10.0 | Some t \<Rightarrow> t)
      in self\<lparr>param := (param self)(FW \<mapsto>
       [1 \<mapsto>
          [''dbf'' \<mapsto> 0.036,
           ''kof'' \<mapsto> 0.05,
           ''TR'' \<mapsto> tr_1,
           ''f_small'' \<mapsto> p_small * f_nom self * 0.05],
        2 \<mapsto>
          [''dbf'' \<mapsto> 0.017,
           ''kof'' \<mapsto> 0.03,
           ''TR'' \<mapsto> tr_2,
           ''f_small'' \<mapsto> p_small * f_nom self * 0.02],
        3 \<mapsto>
          [''dbf'' \<mapsto> 1.0,
           ''kof'' \<mapsto> 0.05,
           ''TR'' \<mapsto> tr_3,
           ''f_small'' \<mapsto> p_small * f_nom self * 0.02]])\<rparr>)"

subsection \<open>Target values\<close>

text \<open>
  \<open>CriteriaValidation.update_target_value\<close>. The result is the returned Python value:
  \<open>None\<close> when no branch returns. Every branch of the source ends in \<open>return\<close>, so its
  sequence of \<open>if\<close> statements is a chain; the first one, for \<open>PRI\<close>, only writes to the
  log. A name read before any assignment raises \<open>UnboundLocalError\<close>, subscripting \<open>None\<close>
  raises \<open>TypeError\<close>. The argument \<open>step_dict'\<close> is the parameter \<open>step_dict\<close> of the method,
  as opposed to the attribute \<open>self.step_dict\<close>.
\<close>

definition update_target_value ::
  "active_function \<Rightarrow> string \<Rightarrow> real option \<Rightarrow> pydict option \<Rightarrow> pyerr + real option" where
  "update_target_value self function value step_dict' =
     (if function = VV then
        bnd (get_params self VV) (\<lambda>vv_pairs.
        bnd (lookups vv_pairs [''V1'', ''V2'', ''V3'', ''V4'']) (\<lambda>x.
        bnd (lookups vv_pairs [''Q1'', ''Q2'', ''Q3'', ''Q4'']) (\<lambda>y.
        bnd (case value of
               Some v \<Rightarrow> Inr (np_interp v x y)
             | None \<Rightarrow>
                 (case step_dict' of
                    Some d \<Rightarrow> bnd (lookup d ''V'') (\<lambda>v. Inr (np_interp v x y))
                  | None \<Rightarrow> Inl UnboundLocalError)) (\<lambda>q_value.
        let q_value = q_value * pwr self
        in Inr (Some (py_round q_value 1))))))
      else if function = VW then
        bnd (get_params self VW) (\<lambda>vw_pairs.
        bnd (lookups vw_pairs [''V1'', ''V2'']) (\<lambda>x.
        bnd (lookups vw_pairs [''P1'', ''P2'']) (\<lambda>y.
        bnd (case value of
               Some v \<Rightarrow> Inr (np_interp v x y)
             | None \<Rightarrow>
                 (case step_dict' of
                    Some d \<Rightarrow> bnd (lookup d ''V'') (\<lambda>v. Inr (np_interp v x y))
                  | None \<Rightarrow> Inl UnboundLocalError)) (\<lambda>p_value.
        let p_value = (if p_value < p_min self then p_min self else p_value);
            p_value = p_value * pwr self
        in Inr (Some (py_round p_value 1))))))
      else if function = CPF then
        (case step_dict' of
           None \<Rightarrow> Inl TypeError
         | Some d \<Rightarrow>
             bnd (lookup d ''PF'') (\<lambda>PF.
             let sign = (if PF > 0 then - 1.0 else 1.0)
             in bnd (case value of Some v \<Rightarrow> Inr v | None \<Rightarrow> lookup d ''P'') (\<lambda>P.
                bnd (py_div 1 (PF ^ 2)) (\<lambda>r.
                bnd (py_sqrt (P ^ 2 * (r - 1))) (\<lambda>q_value.
                Inr (Some (q_value * sign)))))))
      else if function = CRP then
        (case step_dict' of
           None \<Rightarrow> Inl TypeError
         | Some d \<Rightarrow> bnd (lookup d ''Q'') (\<lambda>q_value. Inr (Some (py_round q_value 1))))
      else if function = WV then
        bnd (get_params self WV) (\<lambda>wv_pairs.
        bnd (lookups wv_pairs [''P1'', ''P2'', ''P3'']) (\<lambda>x.
        bnd (lookups wv_pairs [''Q1'', ''Q2'', ''Q3'']) (\<lambda>y.
        (case value of
           None \<Rightarrow> Inl UnboundLocalError
         | Some p_value \<Rightarrow>
             let p_value = (if p_value < p_min self then p_min self
                            else if p_value > p_rated self then p_rated self
                            else p_value);
                 q_value = np_interp p_value x y;
                 q_value = q_value * pwr self
             in Inr (Some q_value)))))
      else if function = FW then
        bnd (get_params self FW) (\<lambda>fw_pairs.
        bnd (lookup fw_pairs ''dbf'') (\<lambda>dbf.
        let f_dob = f_nom self + dbf;
            f_dub = f_nom self - dbf;
            p_db = (if pwr self * 100 < max_pwr_lim self then pwr self
                    else max_pwr_lim self / 100);
            p_avl = pwr self * p_rated self
        in bnd (case value of
                  Some v \<Rightarrow> Inr (Some v)
                | None \<Rightarrow>
                    (case step_dict' of
                       Some d \<Rightarrow> bnd (lookup d ''F'') (\<lambda>v. Inr (Some v))
                     | None \<Rightarrow> Inr None)) (\<lambda>value.
           (case value of
              None \<Rightarrow> Inl TypeError
            | Some value \<Rightarrow>
                if f_dub \<le> value \<and> value \<le> f_dob then Inr (Some (p_db * p_rated self))
                else if value > f_dob then
                  bnd (lookup fw_pairs ''kof'') (\<lambda>kof.
                  bnd (py_div (value - f_dob) (f_nom self * kof)) (\<lambda>r.
                  let p_targ = (p_db - r) * p_rated self;
                      p_targ = (if p_targ < p_min self then p_min self else p_targ)
                  in Inr (Some p_targ)))
                else if value < f_dub then
                  bnd (lookup fw_pairs ''kof'') (\<lambda>kof.
                  bnd (py_div (f_dub - value) (f_nom self * kof)) (\<lambda>r.
                  let p_targ = (p_db + r) * p_rated self;
                      p_targ = (if p_targ > p_avl then p_avl else p_targ)
                  in Inr (Some p_targ)))
                else Inr None))))
      else if function = LAP then
        (case step_dict' of
           None \<Rightarrow> Inl TypeError
         | Some d \<Rightarrow> bnd (lookup d ''P'') (\<lambda>P. Inr (Some (P * p_rated self))))
      else Inr None)"

text \<open>
  \<open>CriteriaValidation.calculate_target_values\<close> returns the triple
  \<open>(target, target_min, target_max)\<close>. The \<open>PRI\<close> branch is an \<open>if\<close> of its own, followed by
  the chain of the other functions, none of which is \<open>PRI\<close>. For a function outside the
  chain the \<open>return\<close> reads three names that were never assigned.
\<close>

definition calculate_target_values ::
  "active_function \<Rightarrow> string \<Rightarrow> pyerr + (real option \<times> real option \<times> real option)" where
  "calculate_target_values self function =
     (if PRI = function then
        (let v_meas = measurement_total self ''V'';
             f_meas = measurement_total self ''F''
         in bnd (update_target_value self VW v_meas (step_dict self)) (\<lambda>target_vw.
            bnd (py_add v_meas (mra self ''V'' * 1.5)) (\<lambda>v.
            bnd (update_target_value self VW v (step_dict self)) (\<lambda>t.
            bnd (py_sub t (mra self ''P'' * 1.5)) (\<lambda>target_min_vw.
            bnd (py_sub v_meas (mra self ''V'' * 1.5)) (\<lambda>v.
            bnd (update_target_value self VW v (step_dict self)) (\<lambda>t.
            bnd (py_add t (mra self ''P'' * 1.5)) (\<lambda>target_max_vw.
            bnd (update_target_value self FW f_meas (step_dict self)) (\<lambda>target_fw.
            bnd (py_add f_meas (mra self ''F'' * 1.5)) (\<lambda>v.
            bnd (update_target_value self FW v (step_dict self)) (\<lambda>t.
            bnd (py_sub t (mra self ''P'' * 1.5)) (\<lambda>target_min_fw.
            bnd (py_sub f_meas (mra self ''F'' * 1.5)) (\<lambda>v.
            bnd (update_target_value self FW v (step_dict self)) (\<lambda>target_max_fw.
            bnd (py_less target_vw target_fw) (\<lambda>lower.
            if lower then Inr (target_vw, target_min_vw, target_max_vw)
            else Inr (target_fw, target_min_fw, target_max_fw))))))))))))))))
      else if function = VV then
        (let v_meas = measurement_total self ''V''
         in bnd (update_target_value self VV v_meas (step_dict self)) (\<lambda>target.
            bnd (py_add v_meas (mra self ''V'' * 1.5)) (\<lambda>v.
            bnd (update_target_value self VV v (step_dict self)) (\<lambda>t.
            bnd (py_sub t (mra self ''Q'' * 1.5)) (\<lambda>target_min.
            bnd (py_sub v_meas (mra self ''V'' * 1.5)) (\<lambda>v.
            bnd (update_target_value self VV v (step_dict self)) (\<lambda>t.
            bnd (py_add t (mra self ''Q'' * 1.5)) (\<lambda>target_max.
            Inr (target, target_min, target_max)))))))))
      else if function = VW then
        (let v_meas = measurement_total self ''V''
         in bnd (update_target_value self VW v_meas (step_dict self)) (\<lambda>target.
            bnd (py_add v_meas (mra self ''V'' * 1.5)) (\<lambda>v.
            bnd (update_target_value self VW v (step_dict self)) (\<lambda>t.
            bnd (py_sub t (mra self ''P'' * 1.5)) (\<lambda>target_min.
            bnd (py_sub v_meas (mra self ''V'' * 1.5)) (\<lambda>v.
            bnd (update_target_value self VW v (step_dict self)) (\<lambda>t.
            bnd (py_add t (mra self ''P'' * 1.5)) (\<lambda>target_max.
            Inr (target, target_min, target_max)))))))))
      else if function = CPF then
        (let p_meas = measurement_total self ''P''
         in bnd (update_target_value self CPF p_meas (step_dict self)) (\<lambda>target.
            bnd (py_add p_meas (mra self ''P'' * 1.5)) (\<lambda>v.
            bnd (update_target_value self CPF v (step_dict self)) (\<lambda>t.
            bnd (py_sub t (1.5 * mra self ''Q'')) (\<lambda>target_min.
            bnd (py_sub p_meas (mra self ''P'' * 1.5)) (\<lambda>v.
            bnd (update_target_value self CPF v (step_dict self)) (\<lambda>t.
            bnd (py_add t (1.5 * mra self ''Q'')) (\<lambda>target_max.
            Inr (target, target_min, target_max)))))))))
      else if function = CRP then
        (case step_dict self of
           None \<Rightarrow> Inl TypeError
         | Some d \<Rightarrow>
             bnd (lookup d ''Q'') (\<lambda>Q.
             Inr (Some Q, Some (Q - mra self ''Q'' * 1.5), Some (Q + mra self ''Q'' * 1.5))))
      else if function = WV then
        (let p_meas = measurement_total self ''P''
         in bnd (update_target_value self WV p_meas (step_dict self)) (\<lambda>target.
            bnd (py_add p_meas (mra self ''P'' * 1.5)) (\<lambda>v.
            bnd (update_target_value self WV v (step_dict self)) (\<lambda>t.
            bnd (py_sub t (mra self ''Q'' * 1.5)) (\<lambda>target_min.
            bnd (py_sub p_meas (mra self ''P'' * 1.5)) (\<lambda>v.
            bnd (update_target_value self WV v (step_dict self)) (\<lambda>t.
            bnd (py_add t (mra self ''Q'' * 1.5)) (\<lambda>target_max.
            Inr (target, target_min, target_max)))))))))
      else if function = FW then
        (let f_meas = measurement_total self ''F''
         in bnd (update_target_value self FW f_meas (step_dict self)) (\<lambda>target.
            bnd (py_add f_meas (mra self ''F'' * 1.5)) (\<lambda>v.
            bnd (update_target_value self FW v (step_dict self)) (\<lambda>t.
            bnd (py_sub t (mra self ''P'' * 1.5)) (\<lambda>target_min.
            bnd (py_sub f_meas (mra self ''F'' * 1.5)) (\<lambda>v.
            bnd (update_target_value self FW v (step_dict self)) (\<lambda>t.
            bnd (py_add t (mra self ''P'' * 1.5)) (\<lambda>target_max.
            Inr (target, target_min, target_max)))))))))
      else if function = LAP then
        (if current_step_label self = ''Step C'' then
           bnd (update_target_value self LAP None (step_dict self)) (\<lambda>target.
           bnd (update_target_value self LAP None (step_dict self)) (\<lambda>t.
           bnd (py_sub t (mra self ''P'' * 1.5)) (\<lambda>target_min.
           bnd (update_target_value self LAP None (step_dict self)) (\<lambda>t.
           bnd (py_add t (mra self ''P'' * 1.5)) (\<lambda>target_max.
           Inr (target, target_min, target_max))))))
         else if current_step_label self = ''Step D'' \<or> current_step_label self = ''Step E'' then
           (let f_meas = measurement_total self ''F''
            in bnd (update_target_value self FW f_meas (step_dict self)) (\<lambda>target.
               bnd (py_add f_meas (mra self ''F'' * 1.5)) (\<lambda>v.
               bnd (update_target_value self FW v (step_dict self)) (\<lambda>t.
               bnd (py_sub t (mra self ''P'' * 1.5)) (\<lambda>target_min.
               bnd (py_sub f_meas (mra self ''F'' * 1.5)) (\<lambda>v.
               bnd (update_target_value self FW v (step_dict self)) (\<lambda>t.
               bnd (py_add t (mra self ''P'' * 1.5)) (\<lambda>target_max.
               Inr (target, target_min, target_max)))))))))
         else if current_step_label self = ''Step F'' then
           (let p_meas = measurement_total self ''P''
            in bnd (update_target_value self WV p_meas (step_dict self)) (\<lambda>target.
               bnd (py_add p_meas (mra self ''P'' * 1.5)) (\<lambda>v.
               bnd (update_target_value self WV v (step_dict self)) (\<lambda>t.
               bnd (py_sub t (mra self ''Q'' * 1.5)) (\<lambda>target_min.
               bnd (py_sub p_meas (mra self ''P'' * 1.5)) (\<lambda>v.
               bnd (update_target_value self WV v (step_dict self)) (\<lambda>t.
               bnd (py_add t (mra self ''Q'' * 1.5)) (\<lambda>target_max.
               Inr (target, target_min, target_max)))))))))
         else Inr (None, None, None))
      else Inl UnboundLocalError)"

text \<open>
  The window the specification describes for a function with independent quantity \<open>x\<close>
  and dependent quantity \<open>y\<close>, at the measured value \<open>m\<close>: the target law at \<open>m\<close>, the law
  at \<open>m + 1.5 MRA(x)\<close> less \<open>1.5 MRA(y)\<close>, and the law at \<open>m - 1.5 MRA(x)\<close> plus
  \<open>1.5 MRA(y)\<close>. The law is \<open>update_target_value\<close>.
\<close>

definition spec_target_window ::
  "active_function \<Rightarrow> string \<Rightarrow> string \<Rightarrow> string \<Rightarrow> real \<Rightarrow>
   pyerr + (real option \<times> real option \<times> real option)" where
  "spec_target_window self function x y m =
     bnd (update_target_value self function (Some m) (step_dict self)) (\<lambda>target.
     bnd (update_target_value self function (Some (m + 1.5 * mra self x)) (step_dict self)) (\<lambda>lo.
     bnd (py_sub lo (1.5 * mra self y)) (\<lambda>target_min.
     bnd (update_target_value self function (Some (m - 1.5 * mra self x)) (step_dict self)) (\<lambda>hi.
     bnd (py_add hi (1.5 * mra self y)) (\<lambda>target_max.
     Inr (target, target_min, target_max))))))"

text \<open>The independent and the dependent quantity of the functions that have a law of the
  measured value.\<close>

definition x_quantity :: "string \<Rightarrow> string" where
  "x_quantity function =
     (if function = VV \<or> function = VW then ''V''
      else if function = FW then ''F''
      else ''P'')"

definition y_quantity :: "string \<Rightarrow> string" where
  "y_quantity function = (if function = VW \<or> function = FW then ''P'' else ''Q'')"

subsection \<open>Open-loop response\<close>

text \<open>\<open>CriteriaValidation.calculate_open_loop_value\<close>. \<open>math.log(0.1)\<close> is not zero, so
  only the second division can fail.\<close>

definition calculate_open_loop_value :: "real \<Rightarrow> real \<Rightarrow> real \<Rightarrow> real \<Rightarrow> pyerr + real" where
  "calculate_open_loop_value y0 y_ss duration tr =
     (let time_const = tr / (- (ln 0.1))
      in bnd (py_div duration time_const) (\<lambda>number_of_taus.
         let resp_fraction = 1 - exp (- number_of_taus);
             resp = (y_ss - y0) * resp_fraction + y0
         in Inr resp))"




subsection \<open>Example configurations\<close>

text \<open>An EUT of 10 kVA at 120 V and 60 Hz with the default settings of \<open>UtilParameters\<close>,
  before any curve is stored.\<close>

definition example_eut :: active_function where
  "example_eut =
     \<lparr>v_nom = 120, s_rated = 10000, f_nom = 60, p_rated = 10000, p_rated_prime = - 10000,
      p_min = 2000, var_rated = 4400, absorb = ''No'', pwr = 1.0, max_pwr_lim = 100, curve = 1,
      param = Map.empty, step_dict = None, current_step_label = [], script_name = VV,
      y_criteria = [''Q''], measurement_total = (\<lambda>type_meas. None), initial_timestamp = 0,
      initial_y_value = Map.empty, tr_value = Map.empty\<rparr>"





text \<open>
  The same EUT with the curves of volt-var, volt-watt and frequency-watt stored, a step
  dictionary, and measurements of 120 V, 60.336 Hz and 5000 W.
\<close>

definition example_measurement :: "string \<Rightarrow> real option" where
  "example_measurement type_meas =
     (if type_meas = ''V'' then Some 120
      else if type_meas = ''F'' then Some 60.336
      else if type_meas = ''P'' then Some 5000
      else None)"

definition window_example :: active_function where
  "window_example =
     FrequencyWatt_set_params None None None None
       (VoltWatt_set_params
         (VoltVar_set_params
           (example_eut\<lparr>step_dict := Some [''Q'' \<mapsto> 1000, ''P'' \<mapsto> 0.5],
              current_step_label := ''Step C'',
              measurement_total := example_measurement\<rparr>)))"

text \<open>A unit that can absorb active power, derated to 66 % of its rated power.\<close>

definition absorbing_example :: active_function where
  "absorbing_example =
     FrequencyWatt_set_params None None None None
       (VoltWatt_set_params (example_eut\<lparr>absorb := ''Yes'', pwr := 0.66\<rparr>))"

section \<open>Properties\<close>

lemma bnd_Inr_iff: "bnd m f = Inr y \<longleftrightarrow> (\<exists>x. m = Inr x \<and> f x = Inr y)"
  by (cases m) (simp_all add: bnd_def)

lemma bnd_Inr [simp]: "bnd (Inr x) f = f x"
  by (simp add: bnd_def)

lemma bnd_Inl [simp]: "bnd (Inl e) f = Inl e"
  by (simp add: bnd_def)

lemma length_calculate_timing [simp]: "length (calculate_timing t rs) = length rs"
  by (induction rs arbitrary: t) simp_all

lemma calculate_timing_Nil_iff [simp]: "calculate_timing t rs = [] \<longleftrightarrow> rs = []"
  by (cases rs) simp_all

lemma calculate_timing_end:
  "i < length rs \<Longrightarrow>
   END_TIMING (calculate_timing t rs ! i) =
     START_TIMING (calculate_timing t rs ! i) + MIN_DURATION (calculate_timing t rs ! i)"
proof (induction rs arbitrary: t i)
  case Nil
  then show ?case by simp
next
  case (Cons r rs)
  then show ?case by (cases i) simp_all
qed

lemma calculate_timing_start0:
  "rs \<noteq> [] \<Longrightarrow> START_TIMING (calculate_timing t rs ! 0) = t"
  by (cases rs) simp_all

lemma calculate_timing_next:
  "Suc i < length rs \<Longrightarrow>
   START_TIMING (calculate_timing t rs ! Suc i) = END_TIMING (calculate_timing t rs ! i)"
proof (induction rs arbitrary: t i)
  case Nil
  then show ?case by simp
next
  case (Cons r rs)
  show ?case
  proof (cases i)
    case 0
    with Cons.prems show ?thesis by (cases rs) simp_all
  next
    case (Suc j)
    with Cons show ?thesis by simp
  qed
qed

lemma calculate_timing_duration:
  "i < length rs \<Longrightarrow> MIN_DURATION (calculate_timing t rs ! i) = MIN_DURATION (rs ! i)"
proof (induction rs arbitrary: t i)
  case Nil
  then show ?case by simp
next
  case (Cons r rs)
  then show ?case by (cases i) simp_all
qed

lemma calculate_timing_lower:
  "\<forall>r \<in> set rs. 0 < MIN_DURATION r \<Longrightarrow> x \<in> set (map END_TIMING (calculate_timing t rs)) \<Longrightarrow> t < x"
proof (induction rs arbitrary: t)
  case Nil
  then show ?case by simp
next
  case (Cons r rs)
  from Cons.prems(2) consider "x = t + MIN_DURATION r"
    | "x \<in> set (map END_TIMING (calculate_timing (t + MIN_DURATION r) rs))"
    by auto
  then show ?case
  proof cases
    case 1
    with Cons.prems(1) show ?thesis by simp
  next
    case 2
    with Cons.IH [of "t + MIN_DURATION r"] Cons.prems(1) have "t + MIN_DURATION r < x" by simp
    moreover from Cons.prems(1) have "0 < MIN_DURATION r" by simp
    ultimately show ?thesis by linarith
  qed
qed

lemma calculate_timing_sorted:
  "\<forall>r \<in> set rs. 0 < MIN_DURATION r \<Longrightarrow> sorted_wrt (<) (map END_TIMING (calculate_timing t rs))"
proof (induction rs arbitrary: t)
  case Nil
  then show ?case by simp
next
  case (Cons r rs)
  have "\<forall>x \<in> set (map END_TIMING (calculate_timing (t + MIN_DURATION r) rs)). t + MIN_DURATION r < x"
    using calculate_timing_lower [of rs _ "t + MIN_DURATION r"] Cons.prems by auto
  with Cons show ?case by simp
qed

lemma timestamps_increasing:
  assumes "\<forall>r \<in> set rs. 0 < MIN_DURATION r"
  shows "sorted_wrt (<) (timestamps (calculate_timing t rs))"
proof (cases rs)
  case Nil
  then show ?thesis by (simp add: timestamps_def)
next
  case (Cons r rs')
  have "\<forall>x \<in> set (map END_TIMING (calculate_timing t rs)). t < x"
    using calculate_timing_lower [OF assms] by blast
  moreover have "sorted_wrt (<) (map END_TIMING (calculate_timing t rs))"
    using calculate_timing_sorted [OF assms] .
  ultimately show ?thesis using Cons by (simp add: timestamps_def)
qed

lemma append_conditions_ran:
  "append_conditions tc ks = Inr rs \<Longrightarrow> set rs \<subseteq> ran tc"
proof (induction ks arbitrary: rs)
  case Nil
  then show ?case by simp
next
  case (Cons k ks)
  then obtain r rs' where r: "lookup tc k = Inr r" and rs': "append_conditions tc ks = Inr rs'"
    and eq: "rs = r # rs'"
    by (auto simp: bnd_Inr_iff)
  from r have "r \<in> ran tc" by (auto simp: lookup_def ran_def split: option.splits)
  with Cons.IH [OF rs'] eq show ?case by simp
qed

lemma append_conditions_length:
  "append_conditions tc ks = Inr rs \<Longrightarrow> length rs = length ks"
proof (induction ks arbitrary: rs)
  case Nil
  then show ?case by simp
next
  case (Cons k ks)
  then show ?case by (auto simp: bnd_Inr_iff)
qed

lemma append_conditions_total:
  "set ks \<subseteq> dom tc \<Longrightarrow> \<exists>rs. append_conditions tc ks = Inr rs"
proof (induction ks)
  case Nil
  then show ?case by simp
next
  case (Cons k ks)
  then obtain rs where "append_conditions tc ks = Inr rs" by auto
  moreover from Cons.prems obtain r where "tc k = Some r" by auto
  ultimately show ?case by (simp add: lookup_def)
qed

lemma ran_upd_subset: "ran (m(k \<mapsto> v)) \<subseteq> insert v (ran m)"
  by (auto simp: ran_def)

lemma ran_pos_upd:
  "\<forall>r \<in> ran m. 0 < MIN_DURATION r \<Longrightarrow> 0 < MIN_DURATION v \<Longrightarrow> \<forall>r \<in> ran (m(k \<mapsto> v)). 0 < MIN_DURATION r"
  using ran_upd_subset [of m k v] by auto

lemma positive_durations_empty [simp]: "positive_durations Map.empty"
  by (simp add: positive_durations_def)

lemma positive_durations_upd [simp]:
  "positive_durations m \<Longrightarrow> 0 < d \<Longrightarrow> positive_durations (m(k \<mapsto> series c d v))"
  unfolding positive_durations_def using ran_upd_subset [of m k "series c d v"]
  by (auto simp: series_def)

lemma vrt_durations_positive:
  "vrt_test_condition p u m = Inr tc \<Longrightarrow> positive_durations tc"
  unfolding vrt_test_condition_def Let_def
  by (cases m) (auto split: if_splits)

lemma frt_durations_positive:
  "0 < (case m of LFRT \<Rightarrow> frt_lf_period p | HFRT \<Rightarrow> frt_hf_period p) \<Longrightarrow>
   positive_durations (frt_test_condition p m)"
  unfolding frt_test_condition_def by (cases m) simp_all

lemma pcrt_durations_positive: "positive_durations pcrt_test_condition"
  unfolding pcrt_test_condition_def by simp

lemma vrt_letters_dom:
  "vrt_test_condition p u m = Inr tc \<Longrightarrow> vrt_range_steps p = ''Figure'' \<or> vrt_range_steps p = ''Random'' \<Longrightarrow>
   set (vrt_letters m c) \<subseteq> dom tc"
  unfolding vrt_test_condition_def Let_def vrt_letters_def
  by (cases m) (auto split: if_splits simp: prime_def)

lemma vrt_letters_length: "length (vrt_letters m c) \<le> 18"
  unfolding vrt_letters_def by (cases m) simp_all

lemma calculate_timing_contiguous: "contiguous_from t (calculate_timing t rs)"
  unfolding contiguous_from_def
  using calculate_timing_start0 [of rs t] calculate_timing_end [of _ rs t]
    calculate_timing_next [of _ rs t]
  by auto

lemma sequence_timing:
  assumes "append_conditions tc ks = Inr rs"
  shows "contiguous_from t (calculate_timing t rs)"
    and "positive_durations tc \<Longrightarrow> sorted_wrt (<) (timestamps (calculate_timing t rs))"
proof -
  show "contiguous_from t (calculate_timing t rs)" by (rule calculate_timing_contiguous)
  assume "positive_durations tc"
  with append_conditions_ran [OF assms] have "\<forall>r \<in> set rs. 0 < MIN_DURATION r"
    by (auto simp: positive_durations_def)
  then show "sorted_wrt (<) (timestamps (calculate_timing t rs))" by (rule timestamps_increasing)
qed

lemma vrt_sequence_timing:
  assumes "vrt_set_test_conditions p u m = Inr rows"
  shows "contiguous_from (vrt_eut_startup_time p) rows \<and> sorted_wrt (<) (timestamps rows)"
proof -
  from assms obtain tc rs where tc: "vrt_test_condition p u m = Inr tc"
    and rs: "append_conditions tc (vrt_letters m (vrt_consecutive_ena p = ''Enabled'')) = Inr rs"
    and rows: "rows = calculate_timing (vrt_eut_startup_time p) rs"
    by (auto simp: vrt_set_test_conditions_def vrt_get_test_sequence_def bnd_Inr_iff Let_def)
  show ?thesis
    using sequence_timing [OF rs] vrt_durations_positive [OF tc] rows by simp
qed

lemma vrt_sequence_total:
  assumes "vrt_v_nom p \<noteq> 0" and "vrt_range_steps p = ''Figure'' \<or> vrt_range_steps p = ''Random''"
  shows "\<exists>rows. vrt_set_test_conditions p u m = Inr rows \<and> length rows \<le> 18 \<and> rows \<noteq> []"
proof -
  from assms(1) obtain tc where tc: "vrt_test_condition p u m = Inr tc"
    by (simp add: vrt_test_condition_def Let_def)
  let ?ks = "vrt_letters m (vrt_consecutive_ena p = ''Enabled'')"
  from append_conditions_total [OF vrt_letters_dom [OF tc assms(2)]]
  obtain rs where rs: "append_conditions tc ?ks = Inr rs" by blast
  have "length rs = length ?ks" by (rule append_conditions_length [OF rs])
  moreover have "length ?ks \<le> 18" by (rule vrt_letters_length)
  moreover have "?ks \<noteq> []" by (cases m) (simp_all add: vrt_letters_def)
  ultimately have "length rs \<le> 18" "rs \<noteq> []" by auto
  with tc rs show ?thesis
    by (simp add: vrt_set_test_conditions_def vrt_get_test_sequence_def Let_def)
qed

lemma vrt_sequence_length:
  assumes "vrt_set_test_conditions p u m = Inr rows"
  shows "length rows \<le> 18"
proof -
  from assms obtain tc rs where 
    rs: "append_conditions tc (vrt_letters m (vrt_consecutive_ena p = ''Enabled'')) = Inr rs"
    and rows: "rows = calculate_timing (vrt_eut_startup_time p) rs"
    by (auto simp: vrt_set_test_conditions_def vrt_get_test_sequence_def bnd_Inr_iff Let_def)
  from append_conditions_length [OF rs] vrt_letters_length rows show ?thesis by simp
qed

lemma frt_sequence_total: "\<exists>rs. frt_set_test_conditions p m = Inr (calculate_timing (frt_eut_startup_time p) rs) \<and> length rs = 3
   \<and> append_conditions (frt_test_condition p m) [''Step E'', ''Step G'', ''Step H''] = Inr rs"
  by (cases m)
    (simp_all add: frt_set_test_conditions_def frt_get_test_sequence_def frt_test_condition_def
      lookup_def Let_def)

lemma pcrt_sequence_total: "\<exists>rs. pcrt_set_test_conditions T0 n = Inr (calculate_timing T0 rs) \<and> length rs = 3
   \<and> append_conditions pcrt_test_condition (pcrt_letters n) = Inr rs"
  by (simp add: pcrt_set_test_conditions_def pcrt_get_test_sequence_def pcrt_test_condition_def
      pcrt_letters_def lookup_def)

lemma frt_sequence_timing:
  assumes "frt_set_test_conditions p m = Inr rows"
  shows "contiguous_from (frt_eut_startup_time p) rows \<and> length rows = 3 \<and>
    (0 < frt_period p m \<longrightarrow> sorted_wrt (<) (timestamps rows))"
proof -
  from frt_sequence_total [of p m] assms obtain rs
    where rows: "rows = calculate_timing (frt_eut_startup_time p) rs" and len: "length rs = 3"
      and rs: "append_conditions (frt_test_condition p m) [''Step E'', ''Step G'', ''Step H''] = Inr rs"
    by auto
  show ?thesis
    using sequence_timing [OF rs] frt_durations_positive [where m = m and p = p] rows len
    by (simp add: frt_period_def)
qed

lemma pcrt_sequence_timing:
  assumes "pcrt_set_test_conditions T0 n = Inr rows"
  shows "contiguous_from T0 rows \<and> length rows = 3 \<and> sorted_wrt (<) (timestamps rows)"
proof -
  from pcrt_sequence_total [of T0 n] assms obtain rs
    where rows: "rows = calculate_timing T0 rs" and len: "length rs = 3"
      and rs: "append_conditions pcrt_test_condition (pcrt_letters n) = Inr rs"
    by auto
  show ?thesis
    using sequence_timing [OF rs] pcrt_durations_positive rows len by simp
qed

text \<open>
  Claim C3, as amended. Every generated ride-through sequence (voltage, frequency or
  phase-change) has its timestamps built by the running sum: the first row starts at the EUT
  startup time \<open>T0\<close>, every row ends at its start plus its minimum duration, and every row
  starts where the previous one ended. The timestamps are strictly increasing for every
  voltage and phase-change sequence, and for a frequency sequence when the configured period
  of the disturbance is positive. A voltage sequence is generated whenever the nominal voltage
  is not zero and the range-step policy is \<open>Figure\<close> or \<open>Random\<close>; frequency and phase-change
  sequences are always generated.
\<close>

theorem ride_through_timestamps:
  "(vrt_set_test_conditions vp uniform vmode = Inr vrows \<longrightarrow>
      contiguous_from (vrt_eut_startup_time vp) vrows \<and> sorted_wrt (<) (timestamps vrows)) \<and>
   (frt_set_test_conditions fp fmode = Inr frows \<longrightarrow>
      contiguous_from (frt_eut_startup_time fp) frows \<and>
      (0 < frt_period fp fmode \<longrightarrow> sorted_wrt (<) (timestamps frows))) \<and>
   (pcrt_set_test_conditions T0 test_num = Inr prows \<longrightarrow>
      contiguous_from T0 prows \<and> sorted_wrt (<) (timestamps prows)) \<and>
   (vrt_v_nom vp \<noteq> 0 \<and> (vrt_range_steps vp = ''Figure'' \<or> vrt_range_steps vp = ''Random'') \<longrightarrow>
      (\<exists>rows. vrt_set_test_conditions vp uniform vmode = Inr rows \<and> rows \<noteq> [])) \<and>
   (\<exists>rows. frt_set_test_conditions fp fmode = Inr rows \<and> rows \<noteq> []) \<and>
   (\<exists>rows. pcrt_set_test_conditions T0 test_num = Inr rows \<and> rows \<noteq> [])"
proof -
  have "\<exists>rows. frt_set_test_conditions fp fmode = Inr rows \<and> rows \<noteq> []"
    using frt_sequence_total [of fp fmode] by (metis length_calculate_timing length_0_conv zero_neq_numeral)
  moreover have "\<exists>rows. pcrt_set_test_conditions T0 test_num = Inr rows \<and> rows \<noteq> []"
    using pcrt_sequence_total [of T0 test_num] by (metis length_calculate_timing length_0_conv zero_neq_numeral)
  ultimately show ?thesis
    using vrt_sequence_timing [of vp uniform vmode vrows] frt_sequence_timing [of fp fmode frows]
      pcrt_sequence_timing [of T0 test_num prows] vrt_sequence_total [of vp uniform vmode]
    by blast
qed

lemma vrt_example_sequence:
  "vrt_set_test_conditions vrt_example (\<lambda>i a b. a) HV_CAT_3 = Inr vrt_example_rows"
  by (simp add: vrt_set_test_conditions_def vrt_get_test_sequence_def vrt_test_condition_def
      vrt_letters_def vrt_example_def vrt_example_rows_def prime_def lookup_def series_def Let_def)

lemma frt_example_sequence: "frt_set_test_conditions frt_example LFRT = Inr frt_example_rows"
  by (simp add: frt_set_test_conditions_def frt_get_test_sequence_def frt_test_condition_def
      frt_example_def frt_example_rows_def lookup_def series_def Let_def)

lemma pcrt_example_sequence: "pcrt_set_test_conditions 0 1 = Inr pcrt_example_rows"
  by (simp add: pcrt_set_test_conditions_def pcrt_get_test_sequence_def pcrt_test_condition_def
      pcrt_letters_def pcrt_example_rows_def lookup_def series_def)

theorem ride_through_timestamps_witness:
  "vrt_set_test_conditions vrt_example (\<lambda>i a b. a) HV_CAT_3 = Inr vrt_example_rows \<and>
   contiguous_from 0 vrt_example_rows \<and> sorted_wrt (<) (timestamps vrt_example_rows) \<and>
   frt_set_test_conditions frt_example LFRT = Inr frt_example_rows \<and>
   0 < frt_period frt_example LFRT \<and>
   contiguous_from 0 frt_example_rows \<and> sorted_wrt (<) (timestamps frt_example_rows) \<and>
   pcrt_set_test_conditions 0 1 = Inr pcrt_example_rows \<and>
   contiguous_from 0 pcrt_example_rows \<and> sorted_wrt (<) (timestamps pcrt_example_rows)"
proof -
  have p: "0 < frt_period frt_example LFRT"
    by (simp add: frt_period_def frt_example_def)
  have v0: "vrt_eut_startup_time vrt_example = 0" "frt_eut_startup_time frt_example = 0"
    by (simp_all add: vrt_example_def frt_example_def)
  show ?thesis
    using ride_through_timestamps [of vrt_example "\<lambda>i a b. a" HV_CAT_3 vrt_example_rows
        frt_example LFRT frt_example_rows 0 1 pcrt_example_rows]
      vrt_example_sequence frt_example_sequence pcrt_example_sequence p v0
    by simp
qed

text \<open>
  Claim C3 as stated fails for a frequency ride-through whose configured period is zero:
  the second and the third row then start at the same time.
\<close>

theorem frt_zero_period_counterexample:
  "frt_set_test_conditions (frt_example\<lparr>frt_lf_period := 0\<rparr>) LFRT = Inr frt_zero_period_rows \<and>
   \<not> sorted_wrt (<) (timestamps frt_zero_period_rows)"
  by (simp add: frt_set_test_conditions_def frt_get_test_sequence_def frt_test_condition_def
      frt_example_def frt_zero_period_rows_def lookup_def series_def Let_def timestamps_def)

lemma length_extend_list_end: "length (extend_list_end xs v n) = max (length xs) n"
  by (simp add: extend_list_end_def)

lemma vector_lengths_vrt:
  "length rows \<le> 20 \<Longrightarrow> vector_lengths (set_vrt_model_parameters rows) = [20, 20, 20, 20, 20]"
  by (simp add: set_vrt_model_parameters_def length_extend_list_end CLEARING_STEPS_def max_def)

lemma vector_lengths_frt:
  "length rows \<le> 4 \<Longrightarrow> vector_lengths (set_frt_model_parameters rows) = [4, 4, 4, 4]"
  by (simp add: set_frt_model_parameters_def length_extend_list_end max_def)

lemma vector_lengths_pcrt:
  "length rows \<le> 11 \<Longrightarrow> vector_lengths (set_pcrt_model_parameters rows) = [11, 11, 11, 11]"
  by (simp add: set_pcrt_model_parameters_def length_extend_list_end max_def)

text \<open>
  Claim C10, as amended. \<open>extend_list_end\<close> returns the list followed by the fill value up to
  the final length; its result has the larger of the two lengths, so a longer list comes
  back unchanged. Every generated sequence is shorter than the slot count of its driver
  (at most 18 rows for 20 slots, 3 rows for 4 slots, 3 rows for 11 slots), so every array
  handed to the driver has exactly the slot count.
\<close>

theorem driver_arrays_slot_count:
  "length (extend_list_end xs v n) = max (length xs) n \<and>
   take (length xs) (extend_list_end xs v n) = xs \<and>
   drop (length xs) (extend_list_end xs v n) = replicate (n - length xs) v \<and>
   (vrt_set_test_conditions vp uniform vmode = Inr vrows \<longrightarrow>
      vector_lengths (set_vrt_model_parameters vrows) = [20, 20, 20, 20, 20]) \<and>
   (frt_set_test_conditions fp fmode = Inr frows \<longrightarrow>
      vector_lengths (set_frt_model_parameters frows) = [4, 4, 4, 4]) \<and>
   (pcrt_set_test_conditions T0 test_num = Inr prows \<longrightarrow>
      vector_lengths (set_pcrt_model_parameters prows) = [11, 11, 11, 11])"
proof -
  have "vrt_set_test_conditions vp uniform vmode = Inr vrows \<longrightarrow> length vrows \<le> 20"
    using vrt_sequence_length [of vp uniform vmode vrows] by auto
  moreover have "frt_set_test_conditions fp fmode = Inr frows \<longrightarrow> length frows \<le> 4"
    using frt_sequence_timing [of fp fmode frows] by auto
  moreover have "pcrt_set_test_conditions T0 test_num = Inr prows \<longrightarrow> length prows \<le> 11"
    using pcrt_sequence_timing [of T0 test_num prows] by auto
  ultimately show ?thesis
    using vector_lengths_vrt [of vrows] vector_lengths_frt [of frows] vector_lengths_pcrt [of prows]
    by (auto simp: extend_list_end_def)
qed

theorem driver_arrays_slot_count_witness:
  "vrt_set_test_conditions vrt_example (\<lambda>i a b. a) HV_CAT_3 = Inr vrt_example_rows \<and>
   vector_lengths (set_vrt_model_parameters vrt_example_rows) = [20, 20, 20, 20, 20] \<and>
   frt_set_test_conditions frt_example LFRT = Inr frt_example_rows \<and>
   vector_lengths (set_frt_model_parameters frt_example_rows) = [4, 4, 4, 4] \<and>
   pcrt_set_test_conditions 0 1 = Inr pcrt_example_rows \<and>
   vector_lengths (set_pcrt_model_parameters pcrt_example_rows) = [11, 11, 11, 11]"
  using driver_arrays_slot_count [of "[]" 0 0 vrt_example "\<lambda>i a b. a" HV_CAT_3 vrt_example_rows
      frt_example LFRT frt_example_rows 0 1 pcrt_example_rows]
    vrt_example_sequence frt_example_sequence pcrt_example_sequence
  by simp

text \<open>
  Claim C10 as stated fails on a list longer than the final length: nothing is truncated.
\<close>

theorem extend_list_end_counterexample:
  "extend_list_end [1, 2, 3, 4, 5] 0 4 = [1, 2, 3, 4, 5] \<and>
   length (extend_list_end [1, 2, 3, 4, 5] 0 4) = 5"
  by (simp add: extend_list_end_def)

subsection \<open>Step labels\<close>

lemma get_step_labels_numeral:
  "get_step_labels (numeral k) self =
     (case get_step_label self of (label, self') \<Rightarrow> label # get_step_labels (pred_numeral k) self')"
  by (simp add: numeral_eq_Suc)

lemma get_step_label_single:
  "n \<le> 90 \<Longrightarrow> get_step_label \<lparr>step_label = n, double_letter_label = False\<rparr> =
     (''Step '' @ [char_of n], \<lparr>step_label = n + 1, double_letter_label = False\<rparr>)"
  by (simp add: get_step_label_def Let_def)

lemma get_step_label_double:
  "n \<le> 90 \<Longrightarrow> get_step_label \<lparr>step_label = n, double_letter_label = True\<rparr> =
     (''Step '' @ [char_of n, char_of n], \<lparr>step_label = n + 1, double_letter_label = True\<rparr>)"
  by (simp add: get_step_label_def Let_def)

lemma get_step_label_wrap:
  "90 < n \<Longrightarrow> get_step_label \<lparr>step_label = n, double_letter_label = b\<rparr> =
     (''Step AA'', \<lparr>step_label = 66, double_letter_label = True\<rparr>)"
  by (simp add: get_step_label_def Let_def char_of_def bit_numeral_iff bit_iff_odd)

lemmas step_label_eval = step_label_sequence_def set_step_label_def py_ord_def
  get_step_labels_numeral get_step_label_single get_step_label_double get_step_label_wrap
  char_of_def bit_numeral_iff bit_iff_odd single_letter_labels_def double_letter_labels_def
  alphabet_def

lemma step_labels_from_A:
  "step_label_sequence (Some ''A'') 52 = Inr (single_letter_labels @ double_letter_labels)"
  by (simp add: step_label_eval)

lemma step_labels_from_G:
  "step_label_sequence (Some ''G'') 46 = Inr (drop 6 single_letter_labels @ double_letter_labels)"
  by (simp add: step_label_eval)

lemma step_labels_distinct: "distinct (single_letter_labels @ double_letter_labels)"
  by (simp add: single_letter_labels_def double_letter_labels_def alphabet_def)

lemma step_labels_27th: "hd double_letter_labels = ''Step AA''"
  by (simp add: double_letter_labels_def alphabet_def)

text \<open>
  With no starting label the code starts at the lower-case \<open>a\<close>, whose code point is
  above 90: the very first label is already a double letter.
\<close>

lemma step_labels_default: "step_label_sequence None 2 = Inr [''Step AA'', ''Step BB'']"
  by (simp add: step_label_eval)

text \<open>
  Claim C4, as amended. Started at \<open>A\<close>, the generator produces the 26 single-letter labels
  \<open>Step A\<close> to \<open>Step Z\<close> and then the 26 double-letter labels \<open>Step AA\<close>, \<open>Step BB\<close>, ...,
  \<open>Step ZZ\<close>, the first of them \<open>Step AA\<close>; these 52 labels are pairwise distinct. Started
  at \<open>G\<close>, as the step sequencers of the library do, it produces the 20 labels \<open>Step G\<close> to
  \<open>Step Z\<close> and then the same double-letter labels.
\<close>

theorem step_label_generator:
  "step_label_sequence (Some ''A'') 52 = Inr (single_letter_labels @ double_letter_labels) \<and>
   length single_letter_labels = 26 \<and>
   hd double_letter_labels = ''Step AA'' \<and>
   distinct (single_letter_labels @ double_letter_labels) \<and>
   step_label_sequence (Some ''G'') 46 = Inr (drop 6 single_letter_labels @ double_letter_labels)"
  using step_labels_from_A step_labels_from_G step_labels_distinct step_labels_27th
  by (simp add: single_letter_labels_def alphabet_def)

text \<open>
  Claim C4 as stated fails at the 53rd call: after \<open>Step ZZ\<close> the generator starts again at
  \<open>Step AA\<close>, the label of the 27th call.
\<close>

theorem step_label_duplicate_counterexample:
  "step_label_sequence (Some ''A'') 53 =
     Inr (single_letter_labels @ double_letter_labels @ [''Step AA'']) \<and>
   \<not> distinct (single_letter_labels @ double_letter_labels @ [''Step AA''])"
  by (simp add: step_label_eval)

subsection \<open>Open-loop response\<close>

lemma ln_tenth_neg: "ln (0.1::real) < 0"
  by simp

lemma open_loop_value_eq:
  "tr \<noteq> 0 \<Longrightarrow> calculate_open_loop_value y0 y_ss duration tr =
     Inr ((y_ss - y0) * (1 - exp (- (duration / (tr / (- ln 0.1))))) + y0)"
  using ln_tenth_neg by (simp add: calculate_open_loop_value_def py_div_def Let_def)


lemma open_loop_at_zero: "tr \<noteq> 0 \<Longrightarrow> calculate_open_loop_value y0 y_ss 0 tr = Inr y0"
  by (simp add: open_loop_value_eq)

lemma open_loop_at_tr:
  assumes "tr \<noteq> 0"
  shows "calculate_open_loop_value y0 y_ss tr tr = Inr (y0 + 0.9 * (y_ss - y0))"
proof -
  have "tr / (tr / (- ln (0.1::real))) = - ln 0.1" using assms by simp
  then have "exp (- (tr / (tr / (- ln (0.1::real))))) = 0.1" by simp
  then show ?thesis using assms by (simp add: open_loop_value_eq)
qed

lemma exp_decay:
  assumes "0 < tr"
  shows "((\<lambda>d. exp (- (d / (tr / (- ln (0.1::real)))))) \<longlongrightarrow> 0) at_top"
proof -
  define c where "c = (- ln (0.1::real)) / tr"
  have pos: "0 < c" using assms ln_tenth_neg by (simp add: c_def field_simps)
  have "filterlim (\<lambda>d::real. c * d) at_top at_top"
    using filterlim_tendsto_pos_mult_at_top [OF tendsto_const pos filterlim_ident] .
  then have "filterlim (\<lambda>d::real. - (c * d)) at_bot at_top"
    by (simp add: filterlim_uminus_at_bot)
  then have "((\<lambda>d. exp (- (c * d))) \<longlongrightarrow> 0) at_top"
    by (rule filterlim_compose [OF exp_at_bot])
  moreover have "\<And>d. d / (tr / (- ln (0.1::real))) = c * d"
    by (simp add: c_def)
  ultimately show ?thesis by simp
qed

lemma open_loop_converges:
  assumes "0 < tr"
  shows "((\<lambda>d. (y_ss - y0) * (1 - exp (- (d / (tr / (- ln (0.1::real)))))) + y0) \<longlongrightarrow> y_ss) at_top"
proof -
  have "((\<lambda>d. (y_ss - y0) * (1 - exp (- (d / (tr / (- ln (0.1::real)))))) + y0)
      \<longlongrightarrow> (y_ss - y0) * (1 - 0) + y0) at_top"
    by (intro tendsto_intros exp_decay [OF assms])
  then show ?thesis by simp
qed


text \<open>
  Claim C6, as amended. For a response time \<open>tr\<close> other than zero, the open-loop model
  returns \<open>y0\<close> at duration 0 and \<open>y0 + 0.9 (y_ss - y0)\<close>, that is 90 % of the commanded change,
  at duration \<open>tr\<close>; for a positive response time it returns a value at every duration, and
  the value tends to \<open>y_ss\<close> as the duration tends to infinity. (The time constant is
  \<open>tr / (- ln 0.1)\<close>; the numbers are reals.)
\<close>

theorem open_loop_model:
  "(tr \<noteq> 0 \<longrightarrow>
      calculate_open_loop_value y0 y_ss 0 tr = Inr y0 \<and>
      calculate_open_loop_value y0 y_ss tr tr = Inr (y0 + 0.9 * (y_ss - y0))) \<and>
   (0 < tr \<longrightarrow>
      (\<exists>y. (\<forall>duration. calculate_open_loop_value y0 y_ss duration tr = Inr (y duration)) \<and>
           (y \<longlongrightarrow> y_ss) at_top))"
proof -
  have "\<exists>y. (\<forall>duration. calculate_open_loop_value y0 y_ss duration tr = Inr (y duration)) \<and>
           (y \<longlongrightarrow> y_ss) at_top" if "0 < tr"
  proof (intro exI conjI allI)
    show "calculate_open_loop_value y0 y_ss duration tr =
        Inr ((y_ss - y0) * (1 - exp (- (duration / (tr / (- ln 0.1))))) + y0)" for duration
      using that by (simp add: open_loop_value_eq)
    show "((\<lambda>d. (y_ss - y0) * (1 - exp (- (d / (tr / (- ln (0.1::real)))))) + y0) \<longlongrightarrow> y_ss) at_top"
      using that by (rule open_loop_converges)
  qed
  then show ?thesis
    using open_loop_at_zero [of tr y0 y_ss] open_loop_at_tr [of tr y0 y_ss] by blast
qed

theorem open_loop_model_witness:
  "(10::real) \<noteq> 0 \<and> (0::real) < 10 \<and>
   calculate_open_loop_value 0 100 0 10 = Inr 0 \<and>
   calculate_open_loop_value 0 100 10 10 = Inr 90 \<and>
   (\<exists>y. (\<forall>duration. calculate_open_loop_value 0 100 duration 10 = Inr (y duration)) \<and>
        (y \<longlongrightarrow> 100) at_top)"
  using open_loop_model [of 10 0 100] by simp

text \<open>
  Claim C6 as stated fails outside the positive response times: with \<open>tr = 0\<close> the model
  divides by zero even at duration 0, and with \<open>tr = -10\<close> the value at duration 10 is
  \<open>-900\<close> for a step from 0 to 100, moving away from the steady state.
\<close>

theorem open_loop_model_counterexample:
  "calculate_open_loop_value 0 100 0 0 = Inl ZeroDivisionError \<and>
   calculate_open_loop_value 0 100 10 (- 10) = Inr (- 900)"
proof -
  have "exp (- ln (1 / 10 :: real)) = 10"
    by (simp add: exp_minus)
  then show ?thesis
    by (simp add: calculate_open_loop_value_def py_div_def Let_def)
qed

lemma bndE:
  assumes "bnd m f = Inr y"
  obtains x where "m = Inr x" and "f x = Inr y"
  using assms by (cases m) (simp_all add: bnd_def)








subsection \<open>Accuracy constants and the volt-var scenario\<close>

lemma mra_simps [simp]:
  "mra self ''V'' = 0.01 * v_nom self"
  "mra self ''Q'' = 0.05 * s_rated self"
  "mra self ''P'' = 0.05 * s_rated self"
  "mra self ''F'' = 0.01"
  "mra self ''T'' = 0.01"
  "mra self ''PF'' = 0.01"
  by (simp_all add: mra_def MRA_def)

lemma vv_curve_1:
  assumes "v_nom self = 120" "s_rated self = 10000" "curve self = 1"
  shows "get_params (VoltVar_set_params self) VV =
     Inr [''V1'' \<mapsto> 110.4, ''V2'' \<mapsto> 117.6, ''V3'' \<mapsto> 122.4, ''V4'' \<mapsto> 129.6,
          ''Q1'' \<mapsto> 4400, ''Q2'' \<mapsto> 0, ''Q3'' \<mapsto> 0, ''Q4'' \<mapsto> - 4400, ''TR'' \<mapsto> 5.0]"
  using assms
  by (simp add: get_params_def VoltVar_set_params_def lookup_def py_round_def round_half_even_def Let_def)

lemma vv_target_1:
  assumes "v_nom self = 120" "s_rated self = 10000" "curve self = 1" "pwr self = 1"
  shows "update_target_value (VoltVar_set_params self) VV (Some 117.6) sd = Inr (Some 0)"
    and "update_target_value (VoltVar_set_params self) VV (Some 110.4) sd = Inr (Some 4400)"
  using assms vv_curve_1 [OF assms(1-3)]
  by (simp_all add: update_target_value_def lookup_def np_interp_def VoltVar_set_params_def
      py_round_def round_half_even_def Let_def)

text \<open>
  Claim C8. With \<open>v_nom = 120\<close> and \<open>s_rated = 10000\<close>, the curve 1 that
  \<open>VoltVar.set_params\<close> stores has \<open>V1 = 110.4\<close>, \<open>V2 = 117.6\<close>, \<open>V3 = 122.4\<close>, \<open>V4 = 129.6\<close>,
  \<open>Q1 = 4400\<close> and \<open>Q4 = -4400\<close> (with \<open>Q2 = Q3 = 0\<close> and \<open>TR = 5\<close>), and at power level 1.0 the
  volt-var target on that curve is 0 at 117.6 V and 4400 at 110.4 V.
\<close>

theorem volt_var_curve_1_scenario:
  assumes "v_nom self = 120" and "s_rated self = 10000" and "curve self = 1" and "pwr self = 1.0"
  shows "get_params (VoltVar_set_params self) VV =
       Inr [''V1'' \<mapsto> 110.4, ''V2'' \<mapsto> 117.6, ''V3'' \<mapsto> 122.4, ''V4'' \<mapsto> 129.6,
            ''Q1'' \<mapsto> 4400, ''Q2'' \<mapsto> 0, ''Q3'' \<mapsto> 0, ''Q4'' \<mapsto> - 4400, ''TR'' \<mapsto> 5.0] \<and>
     update_target_value (VoltVar_set_params self) VV (Some 117.6) sd = Inr (Some 0) \<and>
     update_target_value (VoltVar_set_params self) VV (Some 110.4) sd = Inr (Some 4400)"
  using vv_curve_1 [of self] vv_target_1 [of self sd] assms by simp

theorem volt_var_curve_1_scenario_witness:
  "v_nom example_eut = 120 \<and> s_rated example_eut = 10000 \<and> curve example_eut = 1 \<and>
   pwr example_eut = 1.0 \<and>
   get_params (VoltVar_set_params example_eut) VV =
       Inr [''V1'' \<mapsto> 110.4, ''V2'' \<mapsto> 117.6, ''V3'' \<mapsto> 122.4, ''V4'' \<mapsto> 129.6,
            ''Q1'' \<mapsto> 4400, ''Q2'' \<mapsto> 0, ''Q3'' \<mapsto> 0, ''Q4'' \<mapsto> - 4400, ''TR'' \<mapsto> 5.0] \<and>
   update_target_value (VoltVar_set_params example_eut) VV (Some 117.6) None = Inr (Some 0) \<and>
   update_target_value (VoltVar_set_params example_eut) VV (Some 110.4) None = Inr (Some 4400)"
proof -
  have h: "v_nom example_eut = 120" "s_rated example_eut = 10000" "curve example_eut = 1"
    "pwr example_eut = 1.0"
    by (simp_all add: example_eut_def)
  show ?thesis
    using volt_var_curve_1_scenario [OF h, of None] h by simp
qed

subsection \<open>Target windows\<close>

lemma py_add_Some [simp]: "py_add (Some x) b = Inr (Some (x + b))"
  by (simp add: py_add_def)

lemma py_sub_Some [simp]: "py_sub (Some x) b = Inr (Some (x - b))"
  by (simp add: py_sub_def)

lemma py_add_None [simp]: "py_add None b = Inl TypeError"
  by (simp add: py_add_def)

lemma py_sub_None [simp]: "py_sub None b = Inl TypeError"
  by (simp add: py_sub_def)

lemma py_less_Some [simp]: "py_less (Some x) (Some y) = Inr (x < y)"
  by (simp add: py_less_def)

lemma window_VV:
  "measurement_total self ''V'' = Some m \<Longrightarrow>
   calculate_target_values self VV = spec_target_window self VV ''V'' ''Q'' m"
  by (simp add: calculate_target_values_def spec_target_window_def Let_def mult.commute)

lemma window_VW:
  "measurement_total self ''V'' = Some m \<Longrightarrow>
   calculate_target_values self VW = spec_target_window self VW ''V'' ''P'' m"
  by (simp add: calculate_target_values_def spec_target_window_def Let_def mult.commute)

lemma window_CPF:
  "measurement_total self ''P'' = Some m \<Longrightarrow>
   calculate_target_values self CPF = spec_target_window self CPF ''P'' ''Q'' m"
  by (simp add: calculate_target_values_def spec_target_window_def Let_def mult.commute)

lemma window_WV:
  "measurement_total self ''P'' = Some m \<Longrightarrow>
   calculate_target_values self WV = spec_target_window self WV ''P'' ''Q'' m"
  by (simp add: calculate_target_values_def spec_target_window_def Let_def mult.commute)

lemma window_FW:
  "measurement_total self ''F'' = Some m \<Longrightarrow>
   calculate_target_values self FW = spec_target_window self FW ''F'' ''P'' m"
  by (simp add: calculate_target_values_def spec_target_window_def Let_def mult.commute)

lemma window_CRP:
  "step_dict self = Some d \<Longrightarrow> d ''Q'' = Some Q \<Longrightarrow>
   calculate_target_values self CRP =
     Inr (Some Q, Some (Q - 1.5 * mra self ''Q''), Some (Q + 1.5 * mra self ''Q''))"
  by (simp add: calculate_target_values_def lookup_def mult.commute)

lemma window_LAP_C:
  "current_step_label self = ''Step C'' \<Longrightarrow> step_dict self = Some d \<Longrightarrow> d ''P'' = Some P \<Longrightarrow>
   calculate_target_values self LAP =
     Inr (Some (P * p_rated self), Some (P * p_rated self - 1.5 * mra self ''P''),
          Some (P * p_rated self + 1.5 * mra self ''P''))"
  by (simp add: calculate_target_values_def update_target_value_def lookup_def mult.commute)

lemma window_LAP_DE:
  "current_step_label self = ''Step D'' \<or> current_step_label self = ''Step E'' \<Longrightarrow>
   measurement_total self ''F'' = Some m \<Longrightarrow>
   calculate_target_values self LAP = spec_target_window self FW ''F'' ''P'' m"
  by (auto simp add: calculate_target_values_def spec_target_window_def Let_def mult.commute)

text \<open>At \<open>Step F\<close> the source computes the window of \<open>WV\<close> from the measured active power,
  under a comment that names \<open>VW\<close>.\<close>

lemma window_LAP_F:
  "current_step_label self = ''Step F'' \<Longrightarrow> measurement_total self ''P'' = Some m \<Longrightarrow>
   calculate_target_values self LAP = spec_target_window self WV ''P'' ''Q'' m"
  by (simp add: calculate_target_values_def spec_target_window_def Let_def mult.commute)

lemma window_LAP_other:
  "current_step_label self \<notin> {''Step C'', ''Step D'', ''Step E'', ''Step F''} \<Longrightarrow>
   calculate_target_values self LAP = Inr (None, None, None)"
  by (simp add: calculate_target_values_def)

lemma unknown_function:
  assumes "function \<notin> {PRI, VV, VW, CPF, CRP, WV, FW, LAP}"
  shows "update_target_value self function value sd = Inr None"
    and "calculate_target_values self function = Inl UnboundLocalError"
  using assms by (auto simp add: update_target_value_def calculate_target_values_def)

lemma update_PRI: "update_target_value self PRI value sd = Inr None"
  by (simp add: update_target_value_def)

lemma spec_target_windowE:
  assumes "spec_target_window self function x y m = Inr (t, lo, hi)"
  obtains a b where
    "update_target_value self function (Some m) (step_dict self) = Inr t"
    "update_target_value self function (Some (m + 1.5 * mra self x)) (step_dict self) = Inr a"
    "py_sub a (1.5 * mra self y) = Inr lo"
    "update_target_value self function (Some (m - 1.5 * mra self x)) (step_dict self) = Inr b"
    "py_add b (1.5 * mra self y) = Inr hi"
  using assms unfolding spec_target_window_def
  by (elim bndE) simp

lemma window_PRI_exact:
  assumes v: "measurement_total self ''V'' = Some v" and f: "measurement_total self ''F'' = Some f"
    and vw: "spec_target_window self VW ''V'' ''P'' v = Inr (Some tv, lov, hiv)"
    and fw: "spec_target_window self FW ''F'' ''P'' f = Inr (Some tf, lof, hif)"
  obtains b where
    "update_target_value self FW (Some (f - 1.5 * mra self ''F'')) (step_dict self) = Inr b"
    "py_add b (1.5 * mra self ''P'') = Inr hif"
    "calculate_target_values self PRI =
       Inr (if tv < tf then (Some tv, lov, hiv) else (Some tf, lof, b))"
proof -
  from vw obtain a1 b1 where vw':
    "update_target_value self VW (Some v) (step_dict self) = Inr (Some tv)"
    "update_target_value self VW (Some (v + 1.5 * mra self ''V'')) (step_dict self) = Inr a1"
    "py_sub a1 (1.5 * mra self ''P'') = Inr lov"
    "update_target_value self VW (Some (v - 1.5 * mra self ''V'')) (step_dict self) = Inr b1"
    "py_add b1 (1.5 * mra self ''P'') = Inr hiv"
    by (rule spec_target_windowE)
  from fw obtain a2 b2 where fw':
    "update_target_value self FW (Some f) (step_dict self) = Inr (Some tf)"
    "update_target_value self FW (Some (f + 1.5 * mra self ''F'')) (step_dict self) = Inr a2"
    "py_sub a2 (1.5 * mra self ''P'') = Inr lof"
    "update_target_value self FW (Some (f - 1.5 * mra self ''F'')) (step_dict self) = Inr b2"
    "py_add b2 (1.5 * mra self ''P'') = Inr hif"
    by (rule spec_target_windowE)
  have "calculate_target_values self PRI =
       Inr (if tv < tf then (Some tv, lov, hiv) else (Some tf, lof, b2))"
    using v f vw' fw' by (simp add: calculate_target_values_def Let_def mult.commute)
  with fw'(4,5) show ?thesis by (rule that)
qed

subsection \<open>Bounds of the active-power targets\<close>

lemma round_half_even_bounds: "\<lfloor>x\<rfloor> \<le> round_half_even x \<and> round_half_even x \<le> \<lfloor>x\<rfloor> + 1"
  by (simp add: round_half_even_def Let_def)

lemma round_half_even_mono:
  assumes "x \<le> y"
  shows "round_half_even x \<le> round_half_even y"
proof (cases "\<lfloor>x\<rfloor> = \<lfloor>y\<rfloor>")
  case True
  with assms have "x - of_int \<lfloor>x\<rfloor> \<le> y - of_int \<lfloor>y\<rfloor>" by simp
  with True show ?thesis by (auto simp: round_half_even_def Let_def)
next
  case False
  with assms have "\<lfloor>x\<rfloor> < \<lfloor>y\<rfloor>" using floor_mono [OF assms] by linarith
  with round_half_even_bounds [of x] round_half_even_bounds [of y] show ?thesis by linarith
qed

lemma py_round_mono: "x \<le> y \<Longrightarrow> py_round x n \<le> py_round y n"
  unfolding py_round_def
  by (intro divide_right_mono of_int_le_iff [THEN iffD2] round_half_even_mono mult_right_mono) simp_all

lemma round_half_even_of_int [simp]: "round_half_even (of_int k) = k"
  by (simp add: round_half_even_def Let_def)

lemma py_round_exact: "x * 10 ^ n = of_int k \<Longrightarrow> py_round x n = x"
  by (simp add: py_round_def field_simps)

lemma convex_bounds:
  fixes P1 P2 t :: real
  assumes "0 \<le> t" "t \<le> 1"
  shows "min P1 P2 \<le> P1 + t * (P2 - P1)" and "P1 + t * (P2 - P1) \<le> max P1 P2"
proof -
  define d where "d = P2 - P1"
  have P2: "P2 = P1 + d" by (simp add: d_def)
  show "min P1 P2 \<le> P1 + t * (P2 - P1)"
  proof (cases "0 \<le> d")
    case True
    then have "0 \<le> t * d" using assms by simp
    then show ?thesis unfolding P2 by simp
  next
    case False
    then have "d \<le> t * d" using assms mult_right_mono_neg [of t 1 d] by simp
    then show ?thesis unfolding P2 by simp
  qed
  show "P1 + t * (P2 - P1) \<le> max P1 P2"
  proof (cases "0 \<le> d")
    case True
    then have "t * d \<le> d" using assms mult_right_mono [of t 1 d] by simp
    then show ?thesis unfolding P2 by simp
  next
    case False
    then have "t * d \<le> 0" using assms by (simp add: mult_nonneg_nonpos)
    then show ?thesis unfolding P2 by simp
  qed
qed

lemma np_interp_2_bounds:
  "min P1 P2 \<le> np_interp v [V1, V2] [P1, P2] \<and> np_interp v [V1, V2] [P1, P2] \<le> max P1 P2"
proof -
  have seg: "min P1 P2 \<le> (P2 - P1) / (V2 - V1) * (v - V1) + P1 \<and>
             (P2 - P1) / (V2 - V1) * (v - V1) + P1 \<le> max P1 P2"
    if "V1 < v" "v < V2"
  proof -
    define t where "t = (v - V1) / (V2 - V1)"
    have t: "0 \<le> t" "t \<le> 1" using that by (simp_all add: t_def)
    have eq: "(P2 - P1) / (V2 - V1) * (v - V1) + P1 = P1 + t * (P2 - P1)"
      by (simp add: t_def)
    show ?thesis unfolding eq using convex_bounds [OF t] by blast
  qed
  show ?thesis
    using seg by (auto simp: np_interp_def min_def max_def not_less not_le)
qed

lemma lookup_Some [simp]: "d k = Some v \<Longrightarrow> lookup d k = Inr v"
  by (simp add: lookup_def)

lemma vw_target_value:
  assumes "get_params self VW = Inr vw"
    and "vw ''V1'' = Some V1" and "vw ''V2'' = Some V2"
    and "vw ''P1'' = Some P1" and "vw ''P2'' = Some P2"
  shows "update_target_value self VW (Some v) sd =
    Inr (Some (py_round (max (np_interp v [V1, V2] [P1, P2]) (p_min self) * pwr self) 1))"
  using assms by (simp add: update_target_value_def Let_def max_def not_less)

lemma fw_p_db:
  "(if pwr self * 100 < max_pwr_lim self then pwr self else max_pwr_lim self / 100) =
     min (pwr self) (max_pwr_lim self / 100)"
  by (auto simp: min_def)

lemma fw_target_value:
  assumes "get_params self FW = Inr fw" and "fw ''dbf'' = Some dbf" and "fw ''kof'' = Some kof"
    and "f_nom self * kof \<noteq> 0"
  shows "update_target_value self FW (Some f) sd =
    Inr (Some
      (let p_db = min (pwr self) (max_pwr_lim self / 100)
       in if f_nom self - dbf \<le> f \<and> f \<le> f_nom self + dbf then p_db * p_rated self
          else if f > f_nom self + dbf then
            max (p_min self) ((p_db - (f - (f_nom self + dbf)) / (f_nom self * kof)) * p_rated self)
          else
            min (pwr self * p_rated self)
              ((p_db + (f_nom self - dbf - f) / (f_nom self * kof)) * p_rated self)))"
  using assms
  by (auto simp add: update_target_value_def Let_def py_div_def fw_p_db max_def min_def
      simp del: mult_eq_0_iff)

lemma fw_target_bounds_general:
  assumes pwr: "pwr self \<le> 1" and rated: "0 \<le> p_rated self" and pmin: "p_min self \<le> p_rated self"
    and params: "get_params self FW = Inr fw" "fw ''dbf'' = Some dbf" "fw ''kof'' = Some kof"
    and slope: "0 < f_nom self * kof"
  shows "\<exists>t. update_target_value self FW (Some f) sd = Inr (Some t) \<and>
    min (p_min self) (min (pwr self) (max_pwr_lim self / 100) * p_rated self) \<le> t \<and>
    t \<le> p_rated self"
proof -
  define p_db where "p_db = min (pwr self) (max_pwr_lim self / 100)"
  have db: "p_db \<le> pwr self" "p_db \<le> 1" using pwr by (simp_all add: p_db_def)
  have b1: "p_db * p_rated self \<le> pwr self * p_rated self"
    using db(1) rated by (rule mult_right_mono)
  have b2: "pwr self * p_rated self \<le> p_rated self"
    using mult_right_mono [OF pwr rated] by simp
  have down: "(p_db - r) * p_rated self \<le> p_db * p_rated self" if "0 \<le> r" for r
    using that rated by (intro mult_right_mono) simp_all
  have up: "p_db * p_rated self \<le> (p_db + r) * p_rated self" if "0 \<le> r" for r
    using that rated by (intro mult_right_mono) simp_all
  have nz: "f_nom self * kof \<noteq> 0" using slope by (rule less_imp_neq [THEN not_sym])
  note v = fw_target_value [OF params nz, of f sd, folded p_db_def]
  consider (db) "f_nom self - dbf \<le> f \<and> f \<le> f_nom self + dbf"
    | (over) "\<not> (f_nom self - dbf \<le> f \<and> f \<le> f_nom self + dbf)" "f > f_nom self + dbf"
    | (under) "\<not> (f_nom self - dbf \<le> f \<and> f \<le> f_nom self + dbf)" "\<not> f > f_nom self + dbf"
    by blast
  then have "\<exists>t. update_target_value self FW (Some f) sd = Inr (Some t) \<and>
    min (p_min self) (p_db * p_rated self) \<le> t \<and> t \<le> p_rated self"
  proof cases
    case db
    with v b1 b2 show ?thesis by (simp add: Let_def min.coboundedI2)
  next
    case over
    define raw where "raw = (p_db - (f - (f_nom self + dbf)) / (f_nom self * kof)) * p_rated self"
    have "0 \<le> (f - (f_nom self + dbf)) / (f_nom self * kof)"
      using over slope by simp
    from down [OF this] have raw: "raw \<le> p_db * p_rated self" by (simp add: raw_def)
    have "update_target_value self FW (Some f) sd = Inr (Some (max (p_min self) raw))"
      using v over by (simp add: Let_def raw_def)
    moreover have "min (p_min self) (p_db * p_rated self) \<le> max (p_min self) raw"
      by (simp add: min.coboundedI1 max.coboundedI1)
    moreover have "max (p_min self) raw \<le> p_rated self"
      using raw b1 b2 pmin by simp
    ultimately show ?thesis by blast
  next
    case under
    define raw where "raw = (p_db + (f_nom self - dbf - f) / (f_nom self * kof)) * p_rated self"
    from under have "f < f_nom self - dbf" by linarith
    then have "0 \<le> (f_nom self - dbf - f) / (f_nom self * kof)"
      using slope by simp
    from up [OF this] have raw: "p_db * p_rated self \<le> raw" by (simp add: raw_def)
    have "update_target_value self FW (Some f) sd = Inr (Some (min (pwr self * p_rated self) raw))"
      using v under by (simp add: Let_def raw_def)
    moreover have "min (p_min self) (p_db * p_rated self) \<le> min (pwr self * p_rated self) raw"
      using raw b1 by (simp add: min.coboundedI2)
    moreover have "min (pwr self * p_rated self) raw \<le> p_rated self"
      using b2 by (simp add: min.coboundedI1)
    ultimately show ?thesis by blast
  qed
  then show ?thesis unfolding p_db_def .
qed

lemma vw_target_bounds_general:
  assumes pwr: "0 \<le> pwr self" "pwr self \<le> 1" and rated: "0 \<le> p_rated self"
    and pmin: "p_min self \<le> p_rated self"
    and params: "get_params self VW = Inr vw"
      "vw ''V1'' = Some V1" "vw ''V2'' = Some V2" "vw ''P1'' = Some P1" "vw ''P2'' = Some P2"
    and le: "P1 \<le> p_rated self" "P2 \<le> p_rated self"
  shows "\<exists>t. update_target_value self VW (Some v) sd = Inr (Some t) \<and>
    py_round (pwr self * p_min self) 1 \<le> t \<and> t \<le> py_round (pwr self * p_rated self) 1 \<and>
    t \<le> py_round (p_rated self) 1"
proof -
  let ?p = "max (np_interp v [V1, V2] [P1, P2]) (p_min self)"
  have "np_interp v [V1, V2] [P1, P2] \<le> max P1 P2"
    using np_interp_2_bounds [of P1 P2 v V1 V2] by simp
  with pmin le have p: "p_min self \<le> ?p" "?p \<le> p_rated self" by simp_all
  have lo: "pwr self * p_min self \<le> ?p * pwr self"
    using mult_right_mono [OF p(1) pwr(1)] by (simp add: mult.commute)
  have hi: "?p * pwr self \<le> pwr self * p_rated self"
    using mult_right_mono [OF p(2) pwr(1)] by (simp add: mult.commute)
  have top: "pwr self * p_rated self \<le> p_rated self"
    using mult_right_mono [OF pwr(2) rated] by simp
  have "update_target_value self VW (Some v) sd = Inr (Some (py_round (?p * pwr self) 1))"
    by (rule vw_target_value [OF params])
  moreover have "py_round (pwr self * p_min self) 1 \<le> py_round (?p * pwr self) 1"
    using lo by (rule py_round_mono)
  moreover have "py_round (?p * pwr self) 1 \<le> py_round (pwr self * p_rated self) 1"
    using hi by (rule py_round_mono)
  moreover have "py_round (pwr self * p_rated self) 1 \<le> py_round (p_rated self) 1"
    using top by (rule py_round_mono)
  ultimately show ?thesis by fastforce
qed

lemma py_round_zero [simp]: "py_round 0 n = 0"
  by (simp add: py_round_def round_half_even_def)

lemma window_example_fields:
  "v_nom window_example = 120" "s_rated window_example = 10000" "f_nom window_example = 60"
  "p_rated window_example = 10000" "p_min window_example = 2000" "pwr window_example = 1"
  "max_pwr_lim window_example = 100" "curve window_example = 1"
  "step_dict window_example = Some [''Q'' \<mapsto> 1000, ''P'' \<mapsto> 0.5]"
  "current_step_label window_example = ''Step C''"
  "measurement_total window_example = example_measurement"
  by (simp_all add: window_example_def example_eut_def FrequencyWatt_set_params_def
      VoltWatt_set_params_def VoltVar_set_params_def Let_def)

lemma window_example_VW:
  "get_params window_example VW =
     Inr [''V1'' \<mapsto> 127.2, ''V2'' \<mapsto> 132, ''P1'' \<mapsto> 10000, ''TR'' \<mapsto> 10.0, ''P2'' \<mapsto> 2000]"
  by (simp add: window_example_def example_eut_def FrequencyWatt_set_params_def
      VoltWatt_set_params_def VoltVar_set_params_def get_params_def lookup_def
      py_round_def round_half_even_def py_int_def Let_def)

lemma window_example_FW:
  "get_params window_example FW =
     Inr [''dbf'' \<mapsto> 0.036, ''kof'' \<mapsto> 0.05, ''TR'' \<mapsto> 5.0, ''f_small'' \<mapsto> 0.15]"
  by (simp add: window_example_def example_eut_def FrequencyWatt_set_params_def
      VoltWatt_set_params_def VoltVar_set_params_def get_params_def lookup_def Let_def)

lemma window_example_prime: "p_rated_prime window_example = - 10000"
  by (simp add: window_example_def example_eut_def FrequencyWatt_set_params_def
      VoltWatt_set_params_def VoltVar_set_params_def Let_def)

lemma absorbing_example_fields:
  "absorb absorbing_example = ''Yes''" "pwr absorbing_example = 0.66"
  "f_nom absorbing_example = 60" "p_rated absorbing_example = 10000"
  "p_rated_prime absorbing_example = - 10000" "p_min absorbing_example = 2000"
  "max_pwr_lim absorbing_example = 100" "curve absorbing_example = 1"
  by (simp_all add: absorbing_example_def example_eut_def FrequencyWatt_set_params_def
      VoltWatt_set_params_def Let_def)

lemma absorbing_example_VW:
  "get_params absorbing_example VW =
     Inr [''V1'' \<mapsto> 127.2, ''V2'' \<mapsto> 132, ''P1'' \<mapsto> 10000, ''TR'' \<mapsto> 10.0, ''P2'' \<mapsto> 0]"
  by (simp add: absorbing_example_def example_eut_def FrequencyWatt_set_params_def
      VoltWatt_set_params_def get_params_def lookup_def
      py_round_def round_half_even_def py_int_def Let_def)

lemma absorbing_example_FW:
  "get_params absorbing_example FW =
     Inr [''dbf'' \<mapsto> 0.036, ''kof'' \<mapsto> 0.05, ''TR'' \<mapsto> 5.0, ''f_small'' \<mapsto> 0.15]"
  by (simp add: absorbing_example_def example_eut_def FrequencyWatt_set_params_def
      VoltWatt_set_params_def get_params_def lookup_def Let_def)

lemma fw_eval:
  "update_target_value window_example FW (Some 60.336) sd = Inr (Some 9000)"
  "update_target_value window_example FW (Some 60.351) sd = Inr (Some 8950)"
  "update_target_value window_example FW (Some 60.321) sd = Inr (Some 9050)"
  by (simp_all add: update_target_value_def window_example_FW window_example_fields lookup_def
      py_div_def Let_def)

lemma vw_eval:
  "update_target_value window_example VW (Some 120) sd = Inr (Some 10000)"
  "update_target_value window_example VW (Some 121.8) sd = Inr (Some 10000)"
  "update_target_value window_example VW (Some 118.2) sd = Inr (Some 10000)"
  by (simp_all add: update_target_value_def window_example_VW window_example_fields lookup_def
      np_interp_def py_round_def round_half_even_def Let_def)


lemma window_example_spec_FW:
  "spec_target_window window_example FW ''F'' ''P'' 60.336 = Inr (Some 9000, Some 8200, Some 9800)"
  using fw_eval [of "Some [''Q'' \<mapsto> 1000, ''P'' \<mapsto> 0.5]"]
  by (simp add: spec_target_window_def window_example_fields)

lemma window_example_spec_VW:
  "spec_target_window window_example VW ''V'' ''P'' 120 = Inr (Some 10000, Some 9250, Some 10750)"
  using vw_eval [of "Some [''Q'' \<mapsto> 1000, ''P'' \<mapsto> 0.5]"]
  by (simp add: spec_target_window_def window_example_fields)

lemma update_target_value_relabel:
  "update_target_value (self\<lparr>current_step_label := l\<rparr>) function value sd =
     update_target_value self function value sd"
  by (simp add: update_target_value_def get_params_def cong: option.case_cong if_cong)

lemma relabelled_example_fields:
  "measurement_total (window_example\<lparr>current_step_label := l\<rparr>) = example_measurement"
  "step_dict (window_example\<lparr>current_step_label := l\<rparr>) = step_dict window_example"
  "mra (window_example\<lparr>current_step_label := l\<rparr>) k = mra window_example k"
  by (simp_all add: window_example_fields mra_def MRA_def)

lemma relabelled_example_spec_FW:
  "spec_target_window (window_example\<lparr>current_step_label := l\<rparr>) FW ''F'' ''P'' 60.336 =
     Inr (Some 9000, Some 8200, Some 9800)"
  using window_example_spec_FW
  by (simp add: spec_target_window_def relabelled_example_fields update_target_value_relabel)

text \<open>
  Claim C1, as amended. With a measured value \<open>m\<close> of the independent quantity, the window
  of \<open>VV\<close>, \<open>VW\<close>, \<open>CPF\<close>, \<open>WV\<close> and \<open>FW\<close> is the target law at \<open>m\<close>, the law at
  \<open>m + 1.5 MRA(x)\<close> less \<open>1.5 MRA(y)\<close>, and the law at \<open>m - 1.5 MRA(x)\<close> plus \<open>1.5 MRA(y)\<close>.
  For \<open>CRP\<close> it is the constant \<open>Q\<close> of the step with \<open>Q - 1.5 MRA(Q)\<close> and \<open>Q + 1.5 MRA(Q)\<close>.
  For \<open>LAP\<close> the step label decides: at \<open>Step C\<close> the constant \<open>P p_rated\<close> less and plus
  \<open>1.5 MRA(P)\<close>, at \<open>Step D\<close> and \<open>Step E\<close> the window of \<open>FW\<close>, and at a label outside
  \<open>Step C\<close> to \<open>Step F\<close> no window at all (three times \<open>None\<close>). For \<open>PRI\<close> the result is the
  \<open>VW\<close> window when the \<open>VW\<close> target is the lower one, and otherwise the target and the lower
  bound of the \<open>FW\<close> window.
\<close>

theorem target_window:
  "(fn \<in> {VV, VW, CPF, WV, FW} \<and> measurement_total self (x_quantity fn) = Some m \<longrightarrow>
      calculate_target_values self fn =
        spec_target_window self fn (x_quantity fn) (y_quantity fn) m) \<and>
   (step_dict self = Some d \<and> d ''Q'' = Some Q \<longrightarrow>
      calculate_target_values self CRP =
        Inr (Some Q, Some (Q - 1.5 * mra self ''Q''), Some (Q + 1.5 * mra self ''Q''))) \<and>
   (current_step_label self = ''Step C'' \<and> step_dict self = Some d \<and> d ''P'' = Some P \<longrightarrow>
      calculate_target_values self LAP =
        Inr (Some (P * p_rated self), Some (P * p_rated self - 1.5 * mra self ''P''),
             Some (P * p_rated self + 1.5 * mra self ''P''))) \<and>
   ((current_step_label self = ''Step D'' \<or> current_step_label self = ''Step E'') \<and>
    measurement_total self ''F'' = Some f \<longrightarrow>
      calculate_target_values self LAP = spec_target_window self FW ''F'' ''P'' f) \<and>
   (current_step_label self \<notin> {''Step C'', ''Step D'', ''Step E'', ''Step F''} \<longrightarrow>
      calculate_target_values self LAP = Inr (None, None, None)) \<and>
   (measurement_total self ''V'' = Some v \<and> measurement_total self ''F'' = Some f \<and>
    spec_target_window self VW ''V'' ''P'' v = Inr (Some tv, lov, hiv) \<and>
    spec_target_window self FW ''F'' ''P'' f = Inr (Some tf, lof, hif) \<longrightarrow>
      (\<exists>hi. calculate_target_values self PRI =
         Inr (if tv < tf then (Some tv, lov, hiv) else (Some tf, lof, hi))))"
proof -
  have "calculate_target_values self fn =
      spec_target_window self fn (x_quantity fn) (y_quantity fn) m"
    if "fn \<in> {VV, VW, CPF, WV, FW}" "measurement_total self (x_quantity fn) = Some m"
    using that window_VV [of self m] window_VW [of self m] window_CPF [of self m]
      window_WV [of self m] window_FW [of self m]
    by (auto simp: x_quantity_def y_quantity_def)
  moreover have "\<exists>hi. calculate_target_values self PRI =
         Inr (if tv < tf then (Some tv, lov, hiv) else (Some tf, lof, hi))"
    if "measurement_total self ''V'' = Some v" "measurement_total self ''F'' = Some f"
      "spec_target_window self VW ''V'' ''P'' v = Inr (Some tv, lov, hiv)"
      "spec_target_window self FW ''F'' ''P'' f = Inr (Some tf, lof, hif)"
    using window_PRI_exact [OF that] by metis
  ultimately show ?thesis
    using window_CRP [of self d Q] window_LAP_C [of self d P] window_LAP_DE [of self f]
      window_LAP_other [of self]
    by blast
qed

theorem target_window_witness:
  "FW \<in> {VV, VW, CPF, WV, FW} \<and>
   measurement_total window_example (x_quantity FW) = Some 60.336 \<and>
   calculate_target_values window_example FW = Inr (Some 9000, Some 8200, Some 9800) \<and>
   step_dict window_example = Some [''Q'' \<mapsto> 1000, ''P'' \<mapsto> 0.5] \<and>
   calculate_target_values window_example CRP = Inr (Some 1000, Some 250, Some 1750) \<and>
   current_step_label window_example = ''Step C'' \<and>
   calculate_target_values window_example LAP = Inr (Some 5000, Some 4250, Some 5750) \<and>
   calculate_target_values (window_example\<lparr>current_step_label := ''Step D''\<rparr>) LAP =
     Inr (Some 9000, Some 8200, Some 9800) \<and>
   calculate_target_values (window_example\<lparr>current_step_label := ''Step G''\<rparr>) LAP =
     Inr (None, None, None) \<and>
   spec_target_window window_example VW ''V'' ''P'' 120 = Inr (Some 10000, Some 9250, Some 10750) \<and>
   spec_target_window window_example FW ''F'' ''P'' 60.336 = Inr (Some 9000, Some 8200, Some 9800) \<and>
   (\<exists>hi. calculate_target_values window_example PRI = Inr (Some 9000, Some 8200, hi))"
proof -
  let ?d = "[''Q'' \<mapsto> 1000, ''P'' \<mapsto> 0.5 :: real]"
  note w = target_window [where self = window_example and fn = FW and m = "60.336"
      and d = ?d and Q = 1000 and P = "0.5" and v = 120 and f = "60.336"
      and tv = 10000 and lov = "Some 9250" and hiv = "Some 10750"
      and tf = 9000 and lof = "Some 8200" and hif = "Some 9800"]
  note wd = target_window [where self = "window_example\<lparr>current_step_label := ''Step D''\<rparr>"
      and f = "60.336"]
  note wg = target_window [where self = "window_example\<lparr>current_step_label := ''Step G''\<rparr>"]
  have m: "example_measurement ''V'' = Some 120" "example_measurement ''F'' = Some 60.336"
    "example_measurement ''P'' = Some 5000"
    by (simp_all add: example_measurement_def)
  show ?thesis
    using w wd wg m window_example_spec_FW window_example_spec_VW
      relabelled_example_spec_FW [of "''Step D''"]
    by (simp add: window_example_fields relabelled_example_fields x_quantity_def y_quantity_def)
qed

text \<open>
  Claim C1 as stated fails for \<open>LAP\<close> at a step label other than \<open>Step C\<close> to \<open>Step F\<close>: the
  branch written for that case returns no window.
\<close>

theorem target_window_counterexample:
  "calculate_target_values (window_example\<lparr>current_step_label := ''Step G''\<rparr>) LAP =
     Inr (None, None, None)"
  by (simp add: calculate_target_values_def)

text \<open>
  Claim C5, evaluated where the code departs from it. At 120 V and 60.336 Hz the \<open>FW\<close> target
  (9000 W) is lower than the \<open>VW\<close> target (10000 W), and \<open>PRI\<close> returns the \<open>FW\<close> target with
  the \<open>FW\<close> lower bound; but its upper bound is 9050 W, the law at \<open>f - 1.5 MRA(F)\<close> without
  the \<open>1.5 MRA(P)\<close> that the \<open>FW\<close> branch itself adds (9800 W).
\<close>

theorem prioritization_window_evaluated:
  "calculate_target_values window_example PRI = Inr (Some 9000, Some 8200, Some 9050) \<and>
   calculate_target_values window_example FW = Inr (Some 9000, Some 8200, Some 9800) \<and>
   calculate_target_values window_example VW = Inr (Some 10000, Some 9250, Some 10750)"
  using fw_eval [of "Some [''Q'' \<mapsto> 1000, ''P'' \<mapsto> 0.5]"]
    vw_eval [of "Some [''Q'' \<mapsto> 1000, ''P'' \<mapsto> 0.5]"]
  by (simp add: calculate_target_values_def window_example_fields example_measurement_def Let_def)

text \<open>
  Claim C9, as amended. For every function name outside \<open>PRI\<close>, \<open>VV\<close>, \<open>VW\<close>, \<open>CPF\<close>, \<open>CRP\<close>,
  \<open>WV\<close>, \<open>FW\<close> and \<open>LAP\<close>, \<open>update_target_value\<close> returns \<open>None\<close> without raising, and
  \<open>calculate_target_values\<close> raises \<open>UnboundLocalError\<close>, not \<open>p1547Error\<close>.
\<close>

theorem unrecognized_function:
  assumes "function \<notin> {PRI, VV, VW, CPF, CRP, WV, FW, LAP}"
  shows "update_target_value self function value sd = Inr None \<and>
    calculate_target_values self function = Inl UnboundLocalError"
  using unknown_function [OF assms] by simp

theorem unrecognized_function_witness:
  "''XYZ'' \<notin> {PRI, VV, VW, CPF, CRP, WV, FW, LAP} \<and>
   update_target_value window_example ''XYZ'' (Some 120) None = Inr None \<and>
   calculate_target_values window_example ''XYZ'' = Inl UnboundLocalError"
  using unrecognized_function [of "''XYZ''" window_example "Some 120" None] by simp

text \<open>
  Claim C9 as stated fails: for the name \<open>IOP\<close>, which the library declares but the target
  computation does not handle, one method returns \<open>None\<close> and the other raises an
  \<open>UnboundLocalError\<close>.
\<close>

theorem unrecognized_function_counterexample:
  "update_target_value example_eut ''IOP'' None None = Inr None \<and>
   calculate_target_values example_eut ''IOP'' = Inl UnboundLocalError"
  by (simp add: update_target_value_def calculate_target_values_def)

text \<open>
  Claim C2, as amended. Let the power level \<open>pwr\<close> be at most 1, the rated power not negative
  and \<open>p_min \<le> p_rated\<close>. For every voltage, the \<open>VW\<close> target at a power level that is not
  negative, on a curve whose powers \<open>P1\<close> and \<open>P2\<close> do not exceed \<open>p_rated\<close>, lies between
  \<open>pwr p_min\<close> and \<open>pwr p_rated\<close>, each rounded to one decimal as the target is, hence at
  most at the rounded \<open>p_rated\<close>; it is at least the rounded \<open>p_min\<close> when \<open>pwr = 1\<close> or
  \<open>p_min \<le> 0\<close>, and at least \<open>p_rated_prime\<close> when \<open>p_rated_prime \<le> 0 \<le> p_min\<close>. For every
  frequency, the \<open>FW\<close> target on a curve with \<open>f_nom kof > 0\<close> is at most \<open>p_rated\<close> and at
  least the smaller of \<open>p_min\<close> and \<open>min (pwr, max_pwr_lim / 100) p_rated\<close>; so it lies in
  \<open>[p_min, p_rated]\<close> when \<open>p_min \<le> min (pwr, max_pwr_lim / 100) p_rated\<close>, and in
  \<open>[p_rated_prime, p_rated]\<close> when \<open>p_rated_prime\<close> is below both \<open>p_min\<close> and
  \<open>min (pwr, max_pwr_lim / 100) p_rated\<close>, as it is for an absorbing unit at every power level
  from 0 to 1. The targets exist: \<open>update_target_value\<close> returns a number in each case.
\<close>

theorem power_target_bounds:
  assumes "pwr self \<le> 1" and "0 \<le> p_rated self" and "p_min self \<le> p_rated self"
  shows "(0 \<le> pwr self \<and> get_params self VW = Inr vw \<and>
      vw ''V1'' = Some V1 \<and> vw ''V2'' = Some V2 \<and> vw ''P1'' = Some P1 \<and> vw ''P2'' = Some P2 \<and>
      P1 \<le> p_rated self \<and> P2 \<le> p_rated self \<longrightarrow>
        (\<exists>t. update_target_value self VW (Some v) sd = Inr (Some t) \<and>
             py_round (pwr self * p_min self) 1 \<le> t \<and>
             t \<le> py_round (pwr self * p_rated self) 1 \<and> t \<le> py_round (p_rated self) 1 \<and>
             (pwr self = 1 \<or> p_min self \<le> 0 \<longrightarrow> py_round (p_min self) 1 \<le> t) \<and>
             (p_rated_prime self \<le> 0 \<and> 0 \<le> p_min self \<longrightarrow> p_rated_prime self \<le> t))) \<and>
    (get_params self FW = Inr fw \<and> fw ''dbf'' = Some dbf \<and> fw ''kof'' = Some kof \<and>
      0 < f_nom self * kof \<longrightarrow>
        (\<exists>t. update_target_value self FW (Some f) sd = Inr (Some t) \<and>
             min (p_min self) (min (pwr self) (max_pwr_lim self / 100) * p_rated self) \<le> t \<and>
             t \<le> p_rated self \<and>
             (p_min self \<le> min (pwr self) (max_pwr_lim self / 100) * p_rated self \<longrightarrow>
                p_min self \<le> t) \<and>
             (p_rated_prime self \<le> p_min self \<and>
              p_rated_prime self \<le> min (pwr self) (max_pwr_lim self / 100) * p_rated self \<longrightarrow>
                p_rated_prime self \<le> t)))"
proof (intro conjI impI)
  assume a: "0 \<le> pwr self \<and> get_params self VW = Inr vw \<and>
      vw ''V1'' = Some V1 \<and> vw ''V2'' = Some V2 \<and> vw ''P1'' = Some P1 \<and> vw ''P2'' = Some P2 \<and>
      P1 \<le> p_rated self \<and> P2 \<le> p_rated self"
  then have p: "0 \<le> pwr self" by simp
  from a vw_target_bounds_general [OF p assms, of vw V1 V2 P1 P2 v sd]
  obtain t where t: "update_target_value self VW (Some v) sd = Inr (Some t)"
      "py_round (pwr self * p_min self) 1 \<le> t"
      "t \<le> py_round (pwr self * p_rated self) 1" "t \<le> py_round (p_rated self) 1"
    by blast
  have lo: "py_round (p_min self) 1 \<le> t" if "pwr self = 1 \<or> p_min self \<le> 0"
  proof -
    have "p_min self \<le> pwr self * p_min self"
    proof (cases "pwr self = 1")
      case True
      then show ?thesis by simp
    next
      case False
      with that have m: "p_min self \<le> 0" by simp
      have "1 * p_min self \<le> pwr self * p_min self"
        using assms(1) m by (rule mult_right_mono_neg)
      then show ?thesis by simp
    qed
    then have "py_round (p_min self) 1 \<le> py_round (pwr self * p_min self) 1"
      by (rule py_round_mono)
    with t(2) show ?thesis by simp
  qed
  have ab: "p_rated_prime self \<le> t" if "p_rated_prime self \<le> 0 \<and> 0 \<le> p_min self"
  proof -
    have "0 \<le> pwr self * p_min self" using p that by simp
    then have "py_round 0 1 \<le> py_round (pwr self * p_min self) 1"
      by (rule py_round_mono)
    with t(2) that show ?thesis by simp
  qed
  from t lo ab
  show "\<exists>t. update_target_value self VW (Some v) sd = Inr (Some t) \<and>
             py_round (pwr self * p_min self) 1 \<le> t \<and>
             t \<le> py_round (pwr self * p_rated self) 1 \<and> t \<le> py_round (p_rated self) 1 \<and>
             (pwr self = 1 \<or> p_min self \<le> 0 \<longrightarrow> py_round (p_min self) 1 \<le> t) \<and>
             (p_rated_prime self \<le> 0 \<and> 0 \<le> p_min self \<longrightarrow> p_rated_prime self \<le> t)"
    by blast
next
  assume a: "get_params self FW = Inr fw \<and> fw ''dbf'' = Some dbf \<and> fw ''kof'' = Some kof \<and>
      0 < f_nom self * kof"
  from a fw_target_bounds_general [OF assms, of fw dbf kof f sd]
  obtain t where t: "update_target_value self FW (Some f) sd = Inr (Some t)"
      "min (p_min self) (min (pwr self) (max_pwr_lim self / 100) * p_rated self) \<le> t"
      "t \<le> p_rated self"
    by blast
  define d where "d = min (pwr self) (max_pwr_lim self / 100) * p_rated self"
  from t(2) have m: "min (p_min self) d \<le> t" by (simp only: d_def)
  have "p_min self \<le> d \<longrightarrow> p_min self \<le> t"
    using m by (simp add: min_def split: if_splits)
  then have "p_min self \<le> min (pwr self) (max_pwr_lim self / 100) * p_rated self \<longrightarrow>
                p_min self \<le> t"
    by (simp only: d_def)
  moreover have "p_rated_prime self \<le> p_min self \<and> p_rated_prime self \<le> d \<longrightarrow>
                p_rated_prime self \<le> t"
    using m by (simp add: min_def split: if_splits)
  then have "p_rated_prime self \<le> p_min self \<and>
              p_rated_prime self \<le> min (pwr self) (max_pwr_lim self / 100) * p_rated self \<longrightarrow>
                p_rated_prime self \<le> t"
    by (simp only: d_def)
  ultimately
  show "\<exists>t. update_target_value self FW (Some f) sd = Inr (Some t) \<and>
             min (p_min self) (min (pwr self) (max_pwr_lim self / 100) * p_rated self) \<le> t \<and>
             t \<le> p_rated self \<and>
             (p_min self \<le> min (pwr self) (max_pwr_lim self / 100) * p_rated self \<longrightarrow>
                p_min self \<le> t) \<and>
             (p_rated_prime self \<le> p_min self \<and>
              p_rated_prime self \<le> min (pwr self) (max_pwr_lim self / 100) * p_rated self \<longrightarrow>
                p_rated_prime self \<le> t)"
    using t by blast
qed

theorem power_target_bounds_witness:
  "(pwr window_example \<le> 1 \<and> 0 \<le> pwr window_example \<and> 0 \<le> p_rated window_example \<and>
    p_min window_example \<le> p_rated window_example \<and>
    p_rated_prime window_example \<le> 0 \<and> 0 \<le> p_min window_example \<and>
    get_params window_example VW =
      Inr [''V1'' \<mapsto> 127.2, ''V2'' \<mapsto> 132, ''P1'' \<mapsto> 10000, ''TR'' \<mapsto> 10.0, ''P2'' \<mapsto> 2000] \<and>
    (\<exists>t. update_target_value window_example VW (Some 130) None = Inr (Some t) \<and>
         py_round 2000 1 \<le> t \<and> t \<le> py_round 10000 1 \<and> - 10000 \<le> t) \<and>
    get_params window_example FW =
      Inr [''dbf'' \<mapsto> 0.036, ''kof'' \<mapsto> 0.05, ''TR'' \<mapsto> 5.0, ''f_small'' \<mapsto> 0.15] \<and>
    (\<exists>t. update_target_value window_example FW (Some 61) None = Inr (Some t) \<and>
         2000 \<le> t \<and> t \<le> 10000 \<and> - 10000 \<le> t)) \<and>
   (absorb absorbing_example = ''Yes'' \<and> pwr absorbing_example = 0.66 \<and>
    p_rated_prime absorbing_example = - 10000 \<and> p_min absorbing_example = 2000 \<and>
    p_rated absorbing_example = 10000 \<and>
    p_min absorbing_example \<le>
      min (pwr absorbing_example) (max_pwr_lim absorbing_example / 100) * p_rated absorbing_example \<and>
    get_params absorbing_example VW =
      Inr [''V1'' \<mapsto> 127.2, ''V2'' \<mapsto> 132, ''P1'' \<mapsto> 10000, ''TR'' \<mapsto> 10.0, ''P2'' \<mapsto> 0] \<and>
    (\<exists>t. update_target_value absorbing_example VW (Some 130) None = Inr (Some t) \<and>
         py_round 1320 1 \<le> t \<and> t \<le> py_round 6600 1 \<and> - 10000 \<le> t) \<and>
    (\<exists>t. update_target_value absorbing_example FW (Some 61) None = Inr (Some t) \<and>
         2000 \<le> t \<and> t \<le> 10000 \<and> - 10000 \<le> t))"
proof -
  have h: "pwr window_example \<le> 1" "0 \<le> p_rated window_example"
    "p_min window_example \<le> p_rated window_example"
    by (simp_all add: window_example_fields)
  have ha: "pwr absorbing_example \<le> 1" "0 \<le> p_rated absorbing_example"
    "p_min absorbing_example \<le> p_rated absorbing_example"
    by (simp_all add: absorbing_example_fields)
  note full = power_target_bounds [OF h, where v = 130 and f = 61 and sd = None
        and vw = "[''V1'' \<mapsto> 127.2, ''V2'' \<mapsto> 132, ''P1'' \<mapsto> 10000, ''TR'' \<mapsto> 10.0, ''P2'' \<mapsto> 2000]"
        and fw = "[''dbf'' \<mapsto> 0.036, ''kof'' \<mapsto> 0.05, ''TR'' \<mapsto> 5.0, ''f_small'' \<mapsto> 0.15]"
        and ?V1.0 = "127.2" and ?V2.0 = 132 and ?P1.0 = 10000 and ?P2.0 = 2000
        and dbf = "0.036" and kof = "0.05"]
  note derated = power_target_bounds [OF ha, where v = 130 and f = 61 and sd = None
        and vw = "[''V1'' \<mapsto> 127.2, ''V2'' \<mapsto> 132, ''P1'' \<mapsto> 10000, ''TR'' \<mapsto> 10.0, ''P2'' \<mapsto> 0]"
        and fw = "[''dbf'' \<mapsto> 0.036, ''kof'' \<mapsto> 0.05, ''TR'' \<mapsto> 5.0, ''f_small'' \<mapsto> 0.15]"
        and ?V1.0 = "127.2" and ?V2.0 = 132 and ?P1.0 = 10000 and ?P2.0 = 0
        and dbf = "0.036" and kof = "0.05"]
  show ?thesis
    using full derated window_example_VW window_example_FW absorbing_example_VW absorbing_example_FW
    by (simp add: window_example_fields window_example_prime absorbing_example_fields) blast
qed

text \<open>
  Claim C2 as stated fails at a power level below 1: at 10 % the \<open>VW\<close> target above the
  curve is 200 W and the \<open>FW\<close> target at nominal frequency is 1000 W, both below the minimum
  power of 2000 W.
\<close>

theorem power_target_counterexample:
  "p_min (window_example\<lparr>pwr := 0.1\<rparr>) = 2000 \<and>
   update_target_value (window_example\<lparr>pwr := 0.1\<rparr>) VW (Some 140) None = Inr (Some 200) \<and>
   update_target_value (window_example\<lparr>pwr := 0.1\<rparr>) FW (Some 60) None = Inr (Some 1000)"
proof -
  have "get_params (window_example\<lparr>pwr := 0.1\<rparr>) VW = get_params window_example VW"
    "get_params (window_example\<lparr>pwr := 0.1\<rparr>) FW = get_params window_example FW"
    by (simp_all add: get_params_def)
  then show ?thesis
    by (simp add: update_target_value_def window_example_VW window_example_FW
        window_example_fields lookup_def np_interp_def py_round_def round_half_even_def Let_def)
qed

end
